theory Spec2Isabelle
  imports Main "HOL-Library.Sublist" "HOL-Library.Signed_Division"
begin

section \<open>The encoding policy of the video compression server\<close>

text \<open>
  The model follows \<^verbatim>\<open>src/go/examples/api-usage.go\<close>, the server variant with the
  automatic (\<^verbatim>\<open>ai\<close>) speed mode and the orientation-safe \<^verbatim>\<open>turbo\<close> and \<^verbatim>\<open>max\<close>
  modes.  Go strings are byte strings and become \<^typ>\<open>string\<close>; Go's \<^verbatim>\<open>int\<close> and
  \<^verbatim>\<open>int64\<close> become \<^typ>\<open>int\<close>: the only arithmetic on them is one division of
  a file size and comparisons with constants, so no operation can overflow.
  A method with a pointer receiver that mutates the options returns the updated
  record.
\<close>

subsection \<open>Library functions of Go used by the policy\<close>

text \<open>
  \<^verbatim>\<open>strings.ToLower\<close> on the bytes of a string in UTF-8.  The letters \<^verbatim>\<open>A\<close> to \<^verbatim>\<open>Z\<close>
  are mapped to lower case.  Two letters outside ASCII have a lower case inside it:
  the capital I with a dot above (U+0130, the bytes C4 B0) becomes \<^verbatim>\<open>i\<close>, and the
  Kelvin sign (U+212A, the bytes E2 84 AA) becomes \<^verbatim>\<open>k\<close>.  Every other byte is kept:
  Go maps the remaining letters outside ASCII to letters outside ASCII, and the
  server only ever compares a lowered string with ASCII text, which no such byte can
  match before or after the mapping.
\<close>

definition lowerChar :: "char \<Rightarrow> char" where
  "lowerChar c =
     (case map_of (zip ''ABCDEFGHIJKLMNOPQRSTUVWXYZ'' ''abcdefghijklmnopqrstuvwxyz'') c of
        Some d \<Rightarrow> d
      | None \<Rightarrow> c)"

function ToLower :: "string \<Rightarrow> string" where
  "ToLower [] = []"
| "ToLower (c # cs) =
     (if prefix [CHR 0xC4, CHR 0xB0] (c # cs) then CHR ''i'' # ToLower (drop 1 cs)
      else if prefix [CHR 0xE2, CHR 0x84, CHR 0xAA] (c # cs) then CHR ''k'' # ToLower (drop 2 cs)
      else lowerChar c # ToLower cs)"
  by pat_completeness auto
termination
  by (relation "measure length") auto

text \<open>\<^verbatim>\<open>strings.Contains\<close>: the second string occurs as a contiguous part of the first.\<close>

fun Contains :: "string \<Rightarrow> string \<Rightarrow> bool" where
  "Contains [] sub = (sub = [])"
| "Contains (c # s) sub = (prefix sub (c # s) \<or> Contains s sub)"

text \<open>\<^verbatim>\<open>strconv.Itoa\<close>: the decimal notation of an integer.\<close>

definition digitChar :: "nat \<Rightarrow> char" where
  "digitChar d = ''0123456789'' ! d"

fun natDigits :: "nat \<Rightarrow> string" where
  "natDigits n = (if n < 10 then [digitChar n] else natDigits (n div 10) @ [digitChar (n mod 10)])"

declare natDigits.simps [simp del]

definition Itoa :: "int \<Rightarrow> string" where
  "Itoa i = (if i < 0 then CHR ''-'' # natDigits (nat (- i)) else natDigits (nat i))"

text \<open>
  \<^verbatim>\<open>strconv.Atoi\<close>: an optional sign followed by at least one decimal digit and
  nothing else; a value outside the 64-bit range is an error as well.  The error
  is \<^const>\<open>None\<close>.
\<close>

definition digitVal :: "char \<Rightarrow> nat option" where
  "digitVal c = map_of (zip ''0123456789'' [0, 1, 2, 3, 4, 5, 6, 7, 8, 9]) c"

fun digitsVal :: "nat \<Rightarrow> string \<Rightarrow> nat option" where
  "digitsVal acc [] = Some acc"
| "digitsVal acc (c # cs) =
     (case digitVal c of None \<Rightarrow> None | Some d \<Rightarrow> digitsVal (acc * 10 + d) cs)"

definition Atoi :: "string \<Rightarrow> int option" where
  "Atoi s =
     (let (neg, ds) =
        (case s of
           [] \<Rightarrow> (False, [])
         | c # cs \<Rightarrow>
             if c = CHR ''-'' then (True, cs)
             else if c = CHR ''+'' then (False, cs)
             else (False, s))
      in if ds = [] then None
         else case digitsVal 0 ds of
           None \<Rightarrow> None
         | Some n \<Rightarrow>
             (let v = (if neg then - int n else int n)
              in if v < - (2 ^ 63) \<or> 2 ^ 63 - 1 < v then None else Some v))"

subsection \<open>Encoding options\<close>

record compressOpts =
  Codec :: string
  CRF :: int
  Preset :: string
  Scale :: string
  FPS :: int
  Audio :: string
  AB :: string
  HW :: string
  OutExt :: string
  SpeedMode :: string
  Resolution :: string

text \<open>The zero value \<^verbatim>\<open>compressOpts{}\<close>.\<close>

definition zeroOpts :: compressOpts where
  "zeroOpts =
     \<lparr>Codec = '''', CRF = 0, Preset = '''', Scale = '''', FPS = 0, Audio = '''', AB = '''',
      HW = '''', OutExt = '''', SpeedMode = '''', Resolution = ''''\<rparr>"

definition applyResolution :: "compressOpts \<Rightarrow> compressOpts" where
  "applyResolution opts =
     (if Resolution opts = ''360p'' then opts\<lparr>Scale := ''640:360''\<rparr>
      else if Resolution opts = ''480p'' then opts\<lparr>Scale := ''854:480''\<rparr>
      else if Resolution opts = ''720p'' then opts\<lparr>Scale := ''1280:720''\<rparr>
      else if Resolution opts = ''1080p'' then opts\<lparr>Scale := ''1920:1080''\<rparr>
      else if Resolution opts = ''1440p'' then opts\<lparr>Scale := ''2560:1440''\<rparr>
      else if Resolution opts = ''2160p'' then opts\<lparr>Scale := ''3840:2160''\<rparr>
      else opts)"

definition normalize_opts :: "compressOpts \<Rightarrow> compressOpts" where
  "normalize_opts opts =
     (let opts = (if Codec opts = '''' then opts\<lparr>Codec := ''h264''\<rparr> else opts);
          opts = (if Audio opts = '''' then opts\<lparr>Audio := ''aac''\<rparr> else opts);
          opts = (if AB opts = '''' then opts\<lparr>AB := ''128k''\<rparr> else opts);
          opts = (if HW opts = '''' then opts\<lparr>HW := ''none''\<rparr> else opts);
          opts = (if OutExt opts = '''' then opts\<lparr>OutExt := ''.mp4''\<rparr> else opts);
          opts = (if SpeedMode opts = '''' then opts\<lparr>SpeedMode := ''ai''\<rparr> else opts);
          opts = (if Resolution opts = '''' then opts\<lparr>Resolution := ''original''\<rparr> else opts)
      in applyResolution opts)"

definition chooseSpeedBySize :: "int \<Rightarrow> string" where
  "chooseSpeedBySize sizeMB =
     (if sizeMB \<ge> 700 then ''ultra_fast''
      else if sizeMB \<ge> 200 then ''super_fast''
      else if sizeMB \<ge> 50 then ''fast''
      else if sizeMB \<ge> 10 then ''balanced''
      else ''balanced'')"

definition applySpeedMode :: "compressOpts \<Rightarrow> compressOpts" where
  "applySpeedMode opts =
     (if SpeedMode opts = ''turbo'' then opts\<lparr>CRF := 34, Preset := ''ultrafast'', AB := ''96k''\<rparr>
      else if SpeedMode opts = ''max'' then opts\<lparr>CRF := 36, Preset := ''ultrafast'', AB := ''64k''\<rparr>
      else if SpeedMode opts = ''ultra_fast'' then
        opts\<lparr>CRF := 32, Preset := ''ultrafast'', AB := ''96k''\<rparr>
      else if SpeedMode opts = ''super_fast'' then
        opts\<lparr>CRF := 30, Preset := ''ultrafast'', AB := ''96k''\<rparr>
      else if SpeedMode opts = ''fast'' then opts\<lparr>CRF := 28, Preset := ''veryfast'', AB := ''128k''\<rparr>
      else if SpeedMode opts = ''quality'' then opts\<lparr>CRF := 23, Preset := ''fast'', AB := ''128k''\<rparr>
      else
        (let opts = (if CRF opts = 0 then opts\<lparr>CRF := 26\<rparr> else opts)
         in if Preset opts = '''' then opts\<lparr>Preset := ''veryfast''\<rparr> else opts))"

text \<open>Go's \<^verbatim>\<open>/\<close> on integers truncates towards zero: \<^const>\<open>signed_divide\<close>.\<close>

definition tinyInputSafety :: "compressOpts \<Rightarrow> int \<Rightarrow> compressOpts" where
  "tinyInputSafety opts fileSize =
     (let sizeMB = fileSize sdiv (1024 * 1024)
      in if sizeMB < 10 then
           opts\<lparr>Codec := ''h264'', Audio := ''aac'', Scale := '''', CRF := 22,
                Preset := ''veryfast'', HW := ''none''\<rparr>
         else opts)"

subsection \<open>The parameter compiler\<close>

text \<open>
  \<^verbatim>\<open>buildFFmpegArgs\<close> only ever appends to its argument list, so each block of the
  function is the list it appends, and the result is their concatenation in the
  order of the source.  The options are passed by value: the frame rate that the
  scaling block defaults is local to the compiler (\<open>scaledFPS\<close>).
\<close>

text \<open>Base flags, the hardware decode hint and the input.\<close>

definition inputArgs :: "string \<Rightarrow> compressOpts \<Rightarrow> string list" where
  "inputArgs inPath opts =
     [''-y'', ''-hide_banner'', ''-loglevel'', ''error'']
     @ (if ToLower (HW opts) = ''videotoolbox''
        then [''-hwaccel'', ''videotoolbox'', ''-hwaccel_output_format'', ''videotoolbox'']
        else [])
     @ [''-i'', inPath]"

text \<open>The orientation-safe scaling block: the filter \<open>vf\<close> and the frame rate it leaves.\<close>

definition videoFilter :: "compressOpts \<Rightarrow> string" where
  "videoFilter opts =
     (if ToLower (Codec opts) \<noteq> ''copy'' then
        (if SpeedMode opts = ''turbo'' then
           ''scale='if(gt(a,1),-2,720)':'if(gt(a,1),720,-2)':flags=fast_bilinear,setsar=1''
         else if SpeedMode opts = ''max'' then
           ''scale='if(gt(a,1),-2,480)':'if(gt(a,1),480,-2)':flags=fast_bilinear,setsar=1''
         else if Scale opts \<noteq> '''' then
           ''scale='' @ Scale opts @ '':flags=fast_bilinear,setsar=1''
         else '''')
      else '''')"

definition scaledFPS :: "compressOpts \<Rightarrow> int" where
  "scaledFPS opts =
     (if ToLower (Codec opts) \<noteq> ''copy''
         \<and> (SpeedMode opts = ''turbo'' \<or> SpeedMode opts = ''max'') \<and> FPS opts = 0
      then 24 else FPS opts)"

definition filterArgs :: "compressOpts \<Rightarrow> string list" where
  "filterArgs opts = (if videoFilter opts \<noteq> '''' then [''-vf'', videoFilter opts] else [])"

definition fpsArgs :: "compressOpts \<Rightarrow> string list" where
  "fpsArgs opts =
     (if scaledFPS opts > 0 \<and> ToLower (Codec opts) \<noteq> ''copy''
      then [''-r'', Itoa (scaledFPS opts)] else [])"

text \<open>The concrete encoder.\<close>

definition vcodec :: "compressOpts \<Rightarrow> string" where
  "vcodec opts =
     (if ToLower (Codec opts) = ''copy'' then ''copy''
      else if ToLower (Codec opts) = ''h265'' then
        (if ToLower (HW opts) = ''videotoolbox'' then ''hevc_videotoolbox'' else ''libx265'')
      else
        (if ToLower (HW opts) = ''videotoolbox'' then ''h264_videotoolbox'' else ''libx264''))"

text \<open>The bitrate that stands for the quality parameter on a hardware encoder.\<close>

definition bitrate :: "compressOpts \<Rightarrow> string" where
  "bitrate opts =
     (let b = (if CRF opts \<le> 20 then ''5M''
               else if CRF opts \<le> 23 then ''4M''
               else if CRF opts \<le> 26 then ''3M''
               else if CRF opts \<le> 30 then ''2.5M''
               else if CRF opts \<le> 36 then ''2M''
               else ''1500k'')
      in if SpeedMode opts = ''turbo'' then ''2500k'' else b)"

definition videoArgs :: "compressOpts \<Rightarrow> string list" where
  "videoArgs opts =
     (if vcodec opts = ''copy'' then [''-c:v'', ''copy'']
      else
        [''-c:v'', vcodec opts]
        @ (if vcodec opts = ''libx264'' \<or> vcodec opts = ''libx265'' then
             [''-crf'', Itoa (CRF opts), ''-preset'', Preset opts]
           else if vcodec opts = ''h264_videotoolbox'' \<or> vcodec opts = ''hevc_videotoolbox'' then
             [''-b:v'', bitrate opts]
           else [])
        @ (if ToLower (OutExt opts) = ''.mp4'' then [''-pix_fmt'', ''yuv420p''] else []))"

text \<open>Extra accelerations for \<^verbatim>\<open>turbo\<close> and \<^verbatim>\<open>max\<close>.\<close>

definition tuneArgs :: "compressOpts \<Rightarrow> string list" where
  "tuneArgs opts =
     (if SpeedMode opts = ''max'' \<or> SpeedMode opts = ''turbo'' then
        (if vcodec opts = ''libx264'' then
           [''-tune'', ''fastdecode,zerolatency'', ''-g'', ''300'', ''-keyint_min'', ''300'',
            ''-x264-params'',
            ''no-scenecut=1:ref=1:bframes=0:me=dia:subme=0:trellis=0:aq-mode=0:fast_pskip=1:sync-lookahead=0:rc-lookahead=0'']
         else if vcodec opts = ''libx265'' then
           [''-tune'', ''fastdecode'', ''-g'', ''300'', ''-keyint_min'', ''300'']
         else if vcodec opts = ''h264_videotoolbox'' \<or> vcodec opts = ''hevc_videotoolbox'' then
           [''-realtime'', ''true'', ''-g'', ''300'']
         else [])
      else [])"

definition audioArgs :: "compressOpts \<Rightarrow> string list" where
  "audioArgs opts =
     (if ToLower (Audio opts) = ''copy'' then [''-c:a'', ''copy'']
      else if ToLower (Audio opts) = ''opus'' then [''-c:a'', ''libopus'', ''-b:a'', AB opts]
      else
        [''-c:a'', ''aac'', ''-b:a'', AB opts]
        @ (if SpeedMode opts = ''turbo'' then [''-ac'', ''2'', ''-b:a'', ''96k'']
           else if SpeedMode opts = ''max'' then [''-ac'', ''1'', ''-b:a'', ''64k'']
           else []))"

definition buildFFmpegArgs :: "string \<Rightarrow> string \<Rightarrow> compressOpts \<Rightarrow> string list" where
  "buildFFmpegArgs inPath outPath opts =
     inputArgs inPath opts @ filterArgs opts @ fpsArgs opts @ videoArgs opts @ tuneArgs opts
     @ audioArgs opts @ [''-movflags'', ''+faststart'', ''-threads'', ''0'', outPath]"

subsection \<open>The transcode invoker\<close>

text \<open>
  The external process is a parameter: the outcome of the \<open>n\<close>-th spawn on an
  argument list, \<^const>\<open>None\<close> for exit status zero and the error otherwise.
  \<^verbatim>\<open>runFFmpeg\<close> returns the argument lists it spawned the process on, in order, and
  its error result.
\<close>

type_synonym process = "nat \<Rightarrow> string list \<Rightarrow> string option"

definition runFFmpeg ::
  "process \<Rightarrow> string \<Rightarrow> string \<Rightarrow> compressOpts \<Rightarrow> string list list \<times> string option" where
  "runFFmpeg proc inPath outPath opts0 =
     (let opts = normalize_opts opts0;
          args = buildFFmpegArgs inPath outPath opts
      in case proc 0 args of
           None \<Rightarrow> ([args], None)
         | Some err \<Rightarrow>
             if Contains (ToLower (HW opts)) ''videotoolbox'' then
               (let opts = opts\<lparr>HW := ''none''\<rparr>;
                    args2 = buildFFmpegArgs inPath outPath opts
                in ([args, args2], proc 1 args2))
             else ([args], Some err))"

subsection \<open>The request handler\<close>

text \<open>A parsed form: \<^verbatim>\<open>r.FormValue(key)\<close>, the empty string for a key that is absent.\<close>

type_synonym form = "string \<Rightarrow> string"

definition get :: "form \<Rightarrow> string \<Rightarrow> string \<Rightarrow> string" where
  "get r key def = (if r key \<noteq> '''' then r key else def)"

text \<open>\<^verbatim>\<open>parseOpts\<close> returns the options and an error, which is always \<^verbatim>\<open>nil\<close>.\<close>

definition parseOpts :: "form \<Rightarrow> compressOpts \<times> string option" where
  "parseOpts r =
     (let opts = zeroOpts
        \<lparr>Codec := get r ''codec'' ''h264'',
         Audio := get r ''audio'' ''aac'',
         AB := get r ''ab'' '''',
         HW := get r ''hw'' ''none'',
         OutExt := get r ''outExt'' ''.mp4'',
         SpeedMode := get r ''speed'' ''ai'',
         Resolution := get r ''resolution'' ''original''\<rparr>;
          fpsStr = get r ''fps'' '''';
          opts = (if fpsStr \<noteq> '''' then
                    (case Atoi fpsStr of
                       Some n \<Rightarrow> if n > 0 \<and> n \<le> 60 then opts\<lparr>FPS := n\<rparr> else opts
                     | None \<Rightarrow> opts)
                  else opts)
      in (normalize_opts opts, None))"

text \<open>
  The part of \<^verbatim>\<open>compressHandler\<close> between parsing the options and running the
  transcoder.  \<open>st\<close> is the result of \<^verbatim>\<open>os.Stat\<close> on the saved upload: the size in
  bytes, or \<^const>\<open>None\<close> when it fails, which leaves both sizes zero.
\<close>

definition decideMode :: "compressOpts \<Rightarrow> int \<Rightarrow> compressOpts \<times> string" where
  "decideMode opts sizeMB =
     (if SpeedMode opts = ''ai'' then
        (let base = chooseSpeedBySize sizeMB;
             base = (if sizeMB \<ge> 200 \<and> sizeMB < 2048
                     then (if sizeMB \<le> 250 then ''balanced'' else ''ultra_fast'')
                     else base)
         in (opts\<lparr>SpeedMode := base\<rparr>, ''ai''))
      else (opts, ''manual''))"

definition handlerOpts :: "compressOpts \<Rightarrow> int option \<Rightarrow> compressOpts \<times> string" where
  "handlerOpts opts0 st =
     (let (inputBytes, sizeMB) =
            (case st of Some bytes \<Rightarrow> (bytes, bytes sdiv (1024 * 1024)) | None \<Rightarrow> (0, 0));
          (opts, modeDecider) = decideMode opts0 sizeMB;
          opts = tinyInputSafety opts inputBytes;
          opts = applySpeedMode opts
      in (opts, modeDecider))"

text \<open>
  The handler on a request: the options it parses and prepares, and the run of the
  transcoder on them.  The profile that reaches the parameter compiler first is
  \<open>compiledOpts\<close>: \<^verbatim>\<open>runFFmpeg\<close> normalizes the options once more before it
  compiles them.
\<close>

definition requestOpts :: "form \<Rightarrow> int option \<Rightarrow> compressOpts" where
  "requestOpts r st = fst (handlerOpts (fst (parseOpts r)) st)"

definition compiledOpts :: "form \<Rightarrow> int option \<Rightarrow> compressOpts" where
  "compiledOpts r st = normalize_opts (requestOpts r st)"

definition compress ::
  "process \<Rightarrow> form \<Rightarrow> int option \<Rightarrow> string \<Rightarrow> string \<Rightarrow> string list list \<times> string option" where
  "compress proc r st inPath outPath =
     (case parseOpts r of
        (opts, Some err) \<Rightarrow> ([], Some err)
      | (opts, None) \<Rightarrow> runFFmpeg proc inPath outPath (fst (handlerOpts opts st)))"

subsection \<open>What the transcoder does with a scale filter\<close>

text \<open>
  The dimensions that the claims speak of are computed by the transcoder, not by the
  server, so they need its reading of the \<^verbatim>\<open>-vf\<close> argument.  The reading below
  follows the documentation of the \<^verbatim>\<open>scale\<close> filter, for the two forms of argument
  that \<^verbatim>\<open>buildFFmpegArgs\<close> emits.  The argument is \<^verbatim>\<open>scale=W:H\<close> followed by options
  that do not change the dimensions; \<^verbatim>\<open>W\<close> and \<^verbatim>\<open>H\<close>, the width and the height,
  may stand in single quotes and are an integer or \<^verbatim>\<open>if(gt(a,1),X,Y)\<close> with integers
  \<^verbatim>\<open>X\<close> and \<^verbatim>\<open>Y\<close>.  In an expression \<^verbatim>\<open>a\<close> is the width of the input divided by its
  height, so \<^verbatim>\<open>gt(a,1)\<close> holds exactly on an input that is wider than high.
\<close>

datatype dimExpr = Fixed int | IfLandscape int int

definition stripPrefix :: "string \<Rightarrow> string \<Rightarrow> string option" where
  "stripPrefix p s = (if prefix p s then Some (drop (length p) s) else None)"

definition parseInt :: "string \<Rightarrow> (int \<times> string) option" where
  "parseInt s =
     (let (neg, r) = (case stripPrefix ''-'' s of Some r \<Rightarrow> (True, r) | None \<Rightarrow> (False, s));
          ds = takeWhile (\<lambda>c. digitVal c \<noteq> None) r
      in if ds = [] then None
         else case digitsVal 0 ds of
           None \<Rightarrow> None
         | Some n \<Rightarrow>
             Some (if neg then - int n else int n, dropWhile (\<lambda>c. digitVal c \<noteq> None) r))"

definition parseDim :: "string \<Rightarrow> (dimExpr \<times> string) option" where
  "parseDim s =
     (case stripPrefix ''if(gt(a,1),'' s of
        None \<Rightarrow> map_option (\<lambda>(n, r). (Fixed n, r)) (parseInt s)
      | Some r \<Rightarrow>
          (case parseInt r of
             None \<Rightarrow> None
           | Some (x, r) \<Rightarrow>
               (case Option.bind (stripPrefix '','' r) parseInt of
                  None \<Rightarrow> None
                | Some (y, r) \<Rightarrow>
                    map_option (\<lambda>r. (IfLandscape x y, r)) (stripPrefix '')'' r))))"

definition parseQuotedDim :: "string \<Rightarrow> (dimExpr \<times> string) option" where
  "parseQuotedDim s =
     (case stripPrefix [CHR 0x27] s of
        None \<Rightarrow> parseDim s
      | Some r \<Rightarrow>
          (case parseDim r of
             None \<Rightarrow> None
           | Some (d, r) \<Rightarrow> map_option (\<lambda>r. (d, r)) (stripPrefix [CHR 0x27] r)))"

definition parseScale :: "string \<Rightarrow> (dimExpr \<times> dimExpr) option" where
  "parseScale vf =
     (case Option.bind (stripPrefix ''scale='' vf) parseQuotedDim of
        None \<Rightarrow> None
      | Some (w, r) \<Rightarrow>
          (case Option.bind (stripPrefix '':'' r) parseQuotedDim of
             None \<Rightarrow> None
           | Some (h, r) \<Rightarrow> if r = '''' \<or> prefix '':'' r then Some (w, h) else None))"

definition evalDim :: "int \<Rightarrow> int \<Rightarrow> dimExpr \<Rightarrow> int" where
  "evalDim iw ih d =
     (case d of Fixed n \<Rightarrow> n | IfLandscape x y \<Rightarrow> if ih < iw then x else y)"

text \<open>
  The dimensions of the output.  Zero stands for the dimension of the input.  A
  negative value \<open>- n\<close> leaves the dimension to the transcoder: it keeps the aspect
  ratio of the input, computed from the other dimension with rounding to nearest
  (\<open>rescale\<close>), and makes the result a multiple of \<open>n\<close>; two negative values stand
  for the dimensions of the input.
\<close>

definition rescale :: "int \<Rightarrow> int \<Rightarrow> int \<Rightarrow> int" where
  "rescale a b c = (a * b + c div 2) div c"

definition scaleDims :: "int \<Rightarrow> int \<Rightarrow> int \<Rightarrow> int \<Rightarrow> int \<times> int" where
  "scaleDims iw ih w0 h0 =
     (let w = (if w0 = 0 then iw else w0);
          h = (if h0 = 0 then ih else h0);
          fw = (if w < - 1 then - w else 1);
          fh = (if h < - 1 then - h else 1);
          (w, h) = (if w < 0 \<and> h < 0 then (iw, ih) else (w, h));
          w = (if w < 0 then rescale h iw (ih * fw) * fw else w);
          h = (if h < 0 then rescale w ih (iw * fh) * fh else h)
      in (w, h))"

definition scaleOutput :: "string \<Rightarrow> int \<Rightarrow> int \<Rightarrow> (int \<times> int) option" where
  "scaleOutput vf iw ih =
     map_option (\<lambda>(w, h). scaleDims iw ih (evalDim iw ih w) (evalDim iw ih h)) (parseScale vf)"

text \<open>
  The size that the preview modes aim at, as the comment of the scaling block gives
  it: 720 for \<^verbatim>\<open>turbo\<close> and 480 for \<^verbatim>\<open>max\<close>.
\<close>

definition previewEdge :: "compressOpts \<Rightarrow> int" where
  "previewEdge opts = (if SpeedMode opts = ''turbo'' then 720 else 480)"

subsection \<open>The bitrate ladder, as the specification words it\<close>

text \<open>
  The transcoder reads a bitrate as a decimal number followed by \<^verbatim>\<open>k\<close> (thousand) or
  \<^verbatim>\<open>M\<close> (million): \<open>bitsPerSecond\<close> is the value of such an argument in bits per
  second.  \<open>ladderBitrate\<close> is the ladder of the specification, in bits per second.
\<close>

definition siFactor :: "char \<Rightarrow> int option" where
  "siFactor u = map_of [(CHR ''k'', 1000), (CHR ''M'', 1000000)] u"

definition bitsPerSecond :: "string \<Rightarrow> int option" where
  "bitsPerSecond s =
     (case rev s of
        [] \<Rightarrow> None
      | u # ds \<Rightarrow>
          (case siFactor u of
             None \<Rightarrow> None
           | Some f \<Rightarrow>
               (let num = rev ds;
                    ip = takeWhile (\<lambda>c. c \<noteq> CHR ''.'') num;
                    fp = drop 1 (dropWhile (\<lambda>c. c \<noteq> CHR ''.'') num)
                in if ip = [] then None
                   else case digitsVal 0 (ip @ fp) of
                     None \<Rightarrow> None
                   | Some n \<Rightarrow> Some (int n * f div 10 ^ length fp))))"

definition ladderBitrate :: "int \<Rightarrow> int" where
  "ladderBitrate q =
     (if q \<le> 20 then 5000000
      else if q \<le> 23 then 4000000
      else if q \<le> 26 then 3000000
      else if q \<le> 30 then 2500000
      else if q \<le> 36 then 2000000
      else 1500000)"

subsection \<open>Concrete requests and processes\<close>

text \<open>The form with no value, and processes with a fixed behaviour.\<close>

definition emptyForm :: form where
  "emptyForm = (\<lambda>key. '''')"

definition alwaysFails :: process where
  "alwaysFails = (\<lambda>n args. Some ''exit status 1'')"

definition failsFirst :: process where
  "failsFirst = (\<lambda>n args. if n = 0 then Some ''exit status 1'' else None)"

section \<open>Properties\<close>

subsection \<open>Lowering a string\<close>

text \<open>The hardware value \<^verbatim>\<open>V\<close>, U+0130, \<^verbatim>\<open>DEOTOOLBOX\<close> is lowered to \<^verbatim>\<open>videotoolbox\<close>.\<close>

lemma ToLower_dotted_capital_I:
  "ToLower (''V'' @ [CHR 0xC4, CHR 0xB0] @ ''DEOTOOLBOX'') = ''videotoolbox''"
  by code_simp

subsection \<open>Truncating division by a positive constant\<close>

lemma int_le_div_iff:
  assumes "0 < (b::int)"
  shows "(k \<le> a div b) = (k * b \<le> a)"
proof
  assume "k \<le> a div b"
  then have "k * b \<le> (a div b) * b"
    using assms by (simp add: mult_right_mono)
  also have "\<dots> \<le> a"
    using assms pos_mod_sign [of b a] div_mult_mod_eq [of a b] by linarith
  finally show "k * b \<le> a" .
next
  assume "k * b \<le> a"
  then have "(k * b) div b \<le> a div b"
    using assms by (rule zdiv_mono1)
  then show "k \<le> a div b"
    using assms by simp
qed

lemma sdiv_ge_iff:
  assumes "0 < (b::int)" and "0 < k"
  shows "(k \<le> a sdiv b) = (k * b \<le> a)"
proof (cases "0 \<le> a")
  case True
  then have "a sdiv b = a div b"
    using assms by (simp add: signed_divide_int_def sgn_if)
  then show ?thesis
    using assms by (simp add: int_le_div_iff)
next
  case False
  then have "a sdiv b = - (\<bar>a\<bar> div b)"
    using assms by (simp add: signed_divide_int_def sgn_if)
  moreover have "0 \<le> \<bar>a\<bar> div b"
    using assms by (simp add: pos_imp_zdiv_nonneg_iff)
  moreover have "k * b > 0"
    using assms by simp
  ultimately show ?thesis
    using False assms by linarith
qed

lemma sizeMB_ge_iff:
  "0 < k \<Longrightarrow> (k \<le> fileSize sdiv (1024 * 1024)) = (k * 1048576 \<le> (fileSize::int))"
  using sdiv_ge_iff [of 1048576 k fileSize] by simp

subsection \<open>What each step changes\<close>

lemma applyResolution_eq:
  "applyResolution opts = opts\<lparr>Scale :=
     (if Resolution opts = ''360p'' then ''640:360''
      else if Resolution opts = ''480p'' then ''854:480''
      else if Resolution opts = ''720p'' then ''1280:720''
      else if Resolution opts = ''1080p'' then ''1920:1080''
      else if Resolution opts = ''1440p'' then ''2560:1440''
      else if Resolution opts = ''2160p'' then ''3840:2160''
      else Scale opts)\<rparr>"
  by (simp add: applyResolution_def)

lemma default_field:
  "(if Codec opts = '''' then opts\<lparr>Codec := d\<rparr> else opts) =
     opts\<lparr>Codec := (if Codec opts = '''' then d else Codec opts)\<rparr>"
  "(if Audio opts = '''' then opts\<lparr>Audio := d\<rparr> else opts) =
     opts\<lparr>Audio := (if Audio opts = '''' then d else Audio opts)\<rparr>"
  "(if AB opts = '''' then opts\<lparr>AB := d\<rparr> else opts) =
     opts\<lparr>AB := (if AB opts = '''' then d else AB opts)\<rparr>"
  "(if HW opts = '''' then opts\<lparr>HW := d\<rparr> else opts) =
     opts\<lparr>HW := (if HW opts = '''' then d else HW opts)\<rparr>"
  "(if OutExt opts = '''' then opts\<lparr>OutExt := d\<rparr> else opts) =
     opts\<lparr>OutExt := (if OutExt opts = '''' then d else OutExt opts)\<rparr>"
  "(if SpeedMode opts = '''' then opts\<lparr>SpeedMode := d\<rparr> else opts) =
     opts\<lparr>SpeedMode := (if SpeedMode opts = '''' then d else SpeedMode opts)\<rparr>"
  "(if Resolution opts = '''' then opts\<lparr>Resolution := d\<rparr> else opts) =
     opts\<lparr>Resolution := (if Resolution opts = '''' then d else Resolution opts)\<rparr>"
  by simp_all

lemma normalize_eq:
  "normalize_opts opts = applyResolution (opts
     \<lparr>Codec := (if Codec opts = '''' then ''h264'' else Codec opts),
      Audio := (if Audio opts = '''' then ''aac'' else Audio opts),
      AB := (if AB opts = '''' then ''128k'' else AB opts),
      HW := (if HW opts = '''' then ''none'' else HW opts),
      OutExt := (if OutExt opts = '''' then ''.mp4'' else OutExt opts),
      SpeedMode := (if SpeedMode opts = '''' then ''ai'' else SpeedMode opts),
      Resolution := (if Resolution opts = '''' then ''original'' else Resolution opts)\<rparr>)"
  unfolding normalize_opts_def Let_def default_field by (simp split del: if_split cong: if_cong)

lemma normalize_fields:
  "Codec (normalize_opts opts) = (if Codec opts = '''' then ''h264'' else Codec opts)"
  "Audio (normalize_opts opts) = (if Audio opts = '''' then ''aac'' else Audio opts)"
  "AB (normalize_opts opts) = (if AB opts = '''' then ''128k'' else AB opts)"
  "HW (normalize_opts opts) = (if HW opts = '''' then ''none'' else HW opts)"
  "OutExt (normalize_opts opts) = (if OutExt opts = '''' then ''.mp4'' else OutExt opts)"
  "SpeedMode (normalize_opts opts) = (if SpeedMode opts = '''' then ''ai'' else SpeedMode opts)"
  "Resolution (normalize_opts opts) = (if Resolution opts = '''' then ''original'' else Resolution opts)"
  "CRF (normalize_opts opts) = CRF opts"
  "Preset (normalize_opts opts) = Preset opts"
  "FPS (normalize_opts opts) = FPS opts"
  unfolding normalize_eq applyResolution_eq by (simp_all split del: if_split)

lemma normalize_Scale:
  "Scale (normalize_opts opts) =
     (if Resolution opts = ''360p'' then ''640:360''
      else if Resolution opts = ''480p'' then ''854:480''
      else if Resolution opts = ''720p'' then ''1280:720''
      else if Resolution opts = ''1080p'' then ''1920:1080''
      else if Resolution opts = ''1440p'' then ''2560:1440''
      else if Resolution opts = ''2160p'' then ''3840:2160''
      else Scale opts)"
  unfolding normalize_eq applyResolution_eq by simp

lemma applySpeedMode_fields:
  "Codec (applySpeedMode opts) = Codec opts"
  "Audio (applySpeedMode opts) = Audio opts"
  "Scale (applySpeedMode opts) = Scale opts"
  "FPS (applySpeedMode opts) = FPS opts"
  "HW (applySpeedMode opts) = HW opts"
  "OutExt (applySpeedMode opts) = OutExt opts"
  "SpeedMode (applySpeedMode opts) = SpeedMode opts"
  "Resolution (applySpeedMode opts) = Resolution opts"
  by (simp_all add: applySpeedMode_def Let_def)

lemma tinyInputSafety_fields:
  "FPS (tinyInputSafety opts fileSize) = FPS opts"
  "AB (tinyInputSafety opts fileSize) = AB opts"
  "OutExt (tinyInputSafety opts fileSize) = OutExt opts"
  "SpeedMode (tinyInputSafety opts fileSize) = SpeedMode opts"
  "Resolution (tinyInputSafety opts fileSize) = Resolution opts"
  by (simp_all add: tinyInputSafety_def Let_def)

lemma decideMode_fields:
  "Codec (fst (decideMode opts sizeMB)) = Codec opts"
  "Audio (fst (decideMode opts sizeMB)) = Audio opts"
  "Scale (fst (decideMode opts sizeMB)) = Scale opts"
  "FPS (fst (decideMode opts sizeMB)) = FPS opts"
  "HW (fst (decideMode opts sizeMB)) = HW opts"
  "AB (fst (decideMode opts sizeMB)) = AB opts"
  "CRF (fst (decideMode opts sizeMB)) = CRF opts"
  "Preset (fst (decideMode opts sizeMB)) = Preset opts"
  "OutExt (fst (decideMode opts sizeMB)) = OutExt opts"
  "Resolution (fst (decideMode opts sizeMB)) = Resolution opts"
  by (simp_all add: decideMode_def Let_def)

text \<open>The sizes the handler derives from the result of \<^verbatim>\<open>os.Stat\<close>.\<close>

lemma handlerOpts_eq:
  "handlerOpts opts st =
     (applySpeedMode
        (tinyInputSafety
           (fst (decideMode opts (case st of Some bytes \<Rightarrow> bytes sdiv (1024 * 1024) | None \<Rightarrow> 0)))
           (case st of Some bytes \<Rightarrow> bytes | None \<Rightarrow> 0)),
      snd (decideMode opts (case st of Some bytes \<Rightarrow> bytes sdiv (1024 * 1024) | None \<Rightarrow> 0)))"
  by (simp add: handlerOpts_def Let_def split: option.split prod.split)

lemma get_empty_default: "get r key '''' = r key"
  by (simp add: get_def)

lemma parseOpts_eq:
  "fst (parseOpts r) = normalize_opts (zeroOpts
     \<lparr>Codec := get r ''codec'' ''h264'',
      Audio := get r ''audio'' ''aac'',
      AB := get r ''ab'' '''',
      HW := get r ''hw'' ''none'',
      OutExt := get r ''outExt'' ''.mp4'',
      SpeedMode := get r ''speed'' ''ai'',
      Resolution := get r ''resolution'' ''original'',
      FPS := (case Atoi (r ''fps'') of
                Some n \<Rightarrow> if 0 < n \<and> n \<le> 60 then n else 0
              | None \<Rightarrow> 0)\<rparr>)"
proof -
  have empty: "Atoi '''' = None"
    by (simp add: Atoi_def)
  show ?thesis
  proof (cases "Atoi (r ''fps'')")
    case None
    then show ?thesis
      unfolding parseOpts_def Let_def get_empty_default
      by (simp add: zeroOpts_def split del: if_split cong: if_cong)
  next
    case (Some n)
    then have "r ''fps'' \<noteq> ''''"
      using empty by auto
    with Some show ?thesis
      unfolding parseOpts_def Let_def get_empty_default
      by (simp add: zeroOpts_def)
  qed
qed

lemma parseOpts_fields:
  "Codec (fst (parseOpts r)) = get r ''codec'' ''h264''"
  "Audio (fst (parseOpts r)) = get r ''audio'' ''aac''"
  "AB (fst (parseOpts r)) = get r ''ab'' ''128k''"
  "HW (fst (parseOpts r)) = get r ''hw'' ''none''"
  "OutExt (fst (parseOpts r)) = get r ''outExt'' ''.mp4''"
  "SpeedMode (fst (parseOpts r)) = get r ''speed'' ''ai''"
  "Resolution (fst (parseOpts r)) = get r ''resolution'' ''original''"
  "CRF (fst (parseOpts r)) = 0"
  "Preset (fst (parseOpts r)) = ''''"
  "FPS (fst (parseOpts r)) =
     (case Atoi (r ''fps'') of Some n \<Rightarrow> if 0 < n \<and> n \<le> 60 then n else 0 | None \<Rightarrow> 0)"
  unfolding parseOpts_eq normalize_fields by (simp_all add: get_def zeroOpts_def)

lemma parseOpts_Scale:
  "Scale (fst (parseOpts r)) =
     (if r ''resolution'' = ''360p'' then ''640:360''
      else if r ''resolution'' = ''480p'' then ''854:480''
      else if r ''resolution'' = ''720p'' then ''1280:720''
      else if r ''resolution'' = ''1080p'' then ''1920:1080''
      else if r ''resolution'' = ''1440p'' then ''2560:1440''
      else if r ''resolution'' = ''2160p'' then ''3840:2160''
      else '''')"
  unfolding parseOpts_eq normalize_Scale by (simp add: get_def zeroOpts_def)

subsection \<open>The size-based mode selector\<close>

text \<open>
  Claim C5.  The first-pass selector \<^verbatim>\<open>chooseSpeedBySize\<close>, applied to the file size
  in whole megabytes (the byte count divided by \<open>1024 * 1024\<close>, truncating), returns
  \<^verbatim>\<open>ultra_fast\<close> exactly for sizes of at least 700 MB: 699 MB gives \<^verbatim>\<open>super_fast\<close>,
  700 MB gives \<^verbatim>\<open>ultra_fast\<close>.
\<close>

theorem chooseSpeedBySize_ultra_fast_boundary:
  "(chooseSpeedBySize sizeMB = ''ultra_fast'') = (700 \<le> sizeMB)
   \<and> (chooseSpeedBySize (fileSize sdiv (1024 * 1024)) = ''ultra_fast'')
       = (700 * 1048576 \<le> fileSize)
   \<and> chooseSpeedBySize 699 = ''super_fast''
   \<and> chooseSpeedBySize 700 = ''ultra_fast''"
proof -
  have iff: "(chooseSpeedBySize n = ''ultra_fast'') = (700 \<le> n)" for n
    by (simp add: chooseSpeedBySize_def)
  have "(700 \<le> fileSize sdiv (1024 * 1024)) = (700 * 1048576 \<le> fileSize)"
    by (rule sizeMB_ge_iff) simp
  then show ?thesis
    unfolding iff by (simp add: chooseSpeedBySize_def)
qed

text \<open>
  The mode is decided once, before the safety step and the speed profile, and no
  later step of the handler or of \<^verbatim>\<open>runFFmpeg\<close> changes it.
\<close>

lemma requestOpts_SpeedMode:
  "SpeedMode (requestOpts r st) =
     SpeedMode (fst (decideMode (fst (parseOpts r))
       (case st of Some bytes \<Rightarrow> bytes sdiv (1024 * 1024) | None \<Rightarrow> 0)))"
  by (simp add: requestOpts_def handlerOpts_eq applySpeedMode_fields tinyInputSafety_fields)

lemma decideMode_nonempty:
  "SpeedMode opts \<noteq> '''' \<Longrightarrow> SpeedMode (fst (decideMode opts sizeMB)) \<noteq> ''''"
  by (simp add: decideMode_def chooseSpeedBySize_def Let_def)

lemma parseOpts_SpeedMode_nonempty: "SpeedMode (fst (parseOpts r)) \<noteq> ''''"
  by (simp add: parseOpts_fields get_def)

lemma compiledOpts_SpeedMode: "SpeedMode (compiledOpts r st) = SpeedMode (requestOpts r st)"
  using decideMode_nonempty [OF parseOpts_SpeedMode_nonempty]
  by (simp add: compiledOpts_def normalize_fields requestOpts_SpeedMode)

text \<open>
  Claim C2.  For a request in automatic mode (no \<^verbatim>\<open>speed\<close> value, or \<^verbatim>\<open>ai\<close>) on a
  file of at least 200 and less than 2048 whole megabytes, the final speed mode is
  \<^verbatim>\<open>balanced\<close> when the size is at most 250 MB and \<^verbatim>\<open>ultra_fast\<close> otherwise,
  whatever the first pass chose (\<^verbatim>\<open>super_fast\<close> or \<^verbatim>\<open>ultra_fast\<close> in this band); the
  decider is reported as \<^verbatim>\<open>ai\<close>.
\<close>

theorem automatic_mode_refinement:
  assumes "r ''speed'' = '''' \<or> r ''speed'' = ''ai''"
    and "200 \<le> bytes sdiv (1024 * 1024)"
    and "bytes sdiv (1024 * 1024) < 2048"
  shows "SpeedMode (compiledOpts r (Some bytes)) =
           (if bytes sdiv (1024 * 1024) \<le> 250 then ''balanced'' else ''ultra_fast'')
         \<and> SpeedMode (requestOpts r (Some bytes)) = SpeedMode (compiledOpts r (Some bytes))
         \<and> snd (handlerOpts (fst (parseOpts r)) (Some bytes)) = ''ai''
         \<and> (chooseSpeedBySize (bytes sdiv (1024 * 1024)) = ''super_fast''
              \<or> chooseSpeedBySize (bytes sdiv (1024 * 1024)) = ''ultra_fast'')"
proof -
  have ai: "SpeedMode (fst (parseOpts r)) = ''ai''"
    using assms(1) by (auto simp add: parseOpts_fields get_def)
  have "SpeedMode (requestOpts r (Some bytes)) =
          (if bytes sdiv (1024 * 1024) \<le> 250 then ''balanced'' else ''ultra_fast'')"
    using ai assms(2,3) by (simp add: requestOpts_SpeedMode decideMode_def Let_def)
  moreover have "snd (handlerOpts (fst (parseOpts r)) (Some bytes)) = ''ai''"
    using ai by (simp add: handlerOpts_eq decideMode_def Let_def)
  moreover have "chooseSpeedBySize (bytes sdiv (1024 * 1024)) = ''super_fast''
              \<or> chooseSpeedBySize (bytes sdiv (1024 * 1024)) = ''ultra_fast''"
    using assms(2) by (simp add: chooseSpeedBySize_def)
  ultimately show ?thesis
    by (simp add: compiledOpts_SpeedMode)
qed

text \<open>At the boundary: 250 MB is \<^verbatim>\<open>balanced\<close>, 251 MB is \<^verbatim>\<open>ultra_fast\<close>.\<close>

theorem automatic_mode_refinement_witness:
  "SpeedMode (compiledOpts emptyForm (Some (250 * 1048576))) = ''balanced''
   \<and> SpeedMode (compiledOpts (emptyForm(''speed'' := ''ai'')) (Some (251 * 1048576))) = ''ultra_fast''
   \<and> chooseSpeedBySize 250 = ''super_fast'' \<and> chooseSpeedBySize 251 = ''super_fast''"
proof -
  have a: "(250 * 1048576 :: int) sdiv (1024 * 1024) = 250"
    by simp
  have b: "(251 * 1048576 :: int) sdiv (1024 * 1024) = 251"
    by simp
  show ?thesis
    using automatic_mode_refinement [of emptyForm "250 * 1048576"]
      automatic_mode_refinement [of "emptyForm(''speed'' := ''ai'')" "251 * 1048576"]
    unfolding a b by (simp add: emptyForm_def chooseSpeedBySize_def)
qed

subsection \<open>The parameter compiler\<close>

lemma vcodec_copy_iff: "(vcodec opts = ''copy'') = (ToLower (Codec opts) = ''copy'')"
  by (simp add: vcodec_def)

lemma Itoa_24: "Itoa 24 = ''24''"
  by (simp add: Itoa_def natDigits.simps digitChar_def)

text \<open>Outside the scaling block, no block of the compiler reads the scale target.\<close>

lemma Scale_irrelevant_aux:
  "scaledFPS (opts\<lparr>Scale := s\<rparr>) = scaledFPS opts"
  "vcodec (opts\<lparr>Scale := s\<rparr>) = vcodec opts"
  "bitrate (opts\<lparr>Scale := s\<rparr>) = bitrate opts"
  unfolding scaledFPS_def vcodec_def bitrate_def by (simp_all split del: if_split cong: if_cong)

lemma Scale_irrelevant:
  "inputArgs inPath (opts\<lparr>Scale := s\<rparr>) = inputArgs inPath opts"
  "fpsArgs (opts\<lparr>Scale := s\<rparr>) = fpsArgs opts"
  "videoArgs (opts\<lparr>Scale := s\<rparr>) = videoArgs opts"
  "tuneArgs (opts\<lparr>Scale := s\<rparr>) = tuneArgs opts"
  "audioArgs (opts\<lparr>Scale := s\<rparr>) = audioArgs opts"
  unfolding inputArgs_def fpsArgs_def videoArgs_def tuneArgs_def audioArgs_def Scale_irrelevant_aux
  by (simp_all split del: if_split cong: if_cong)

text \<open>The transcoder's reading of the two filters of the preview modes.\<close>

lemma parseScale_turbo:
  "parseScale ''scale='if(gt(a,1),-2,720)':'if(gt(a,1),720,-2)':flags=fast_bilinear,setsar=1''
     = Some (IfLandscape (- 2) 720, IfLandscape 720 (- 2))"
  by code_simp

lemma parseScale_max:
  "parseScale ''scale='if(gt(a,1),-2,480)':'if(gt(a,1),480,-2)':flags=fast_bilinear,setsar=1''
     = Some (IfLandscape (- 2) 480, IfLandscape 480 (- 2))"
  by code_simp

lemma scaleDims_auto_width:
  "0 < h \<Longrightarrow> scaleDims iw ih (- 2) h = (rescale h iw (ih * 2) * 2, h)"
  by (simp add: scaleDims_def Let_def)

lemma scaleDims_auto_height:
  "0 < w \<Longrightarrow> scaleDims iw ih w (- 2) = (w, rescale w ih (iw * 2) * 2)"
  by (simp add: scaleDims_def Let_def)

text \<open>The dimension that is left to the transcoder is the longer one.\<close>

lemma rescale_ge:
  assumes "0 < s" and "s \<le> l" and "0 \<le> k"
  shows "2 * k \<le> rescale (2 * k) l (s * 2) * 2"
proof -
  have "k * s \<le> k * l"
    using assms by (simp add: mult_left_mono)
  then have "k * (s * 2) \<le> 2 * k * l + s"
    using assms(1) by (simp add: algebra_simps)
  moreover have "0 < s * 2"
    using assms(1) by simp
  ultimately have "k \<le> (2 * k * l + s) div (s * 2)"
    by (simp only: int_le_div_iff)
  then show ?thesis
    by (simp add: rescale_def)
qed

text \<open>
  Claim C4, as amended.  In mode \<^verbatim>\<open>turbo\<close> or \<^verbatim>\<open>max\<close> with a video codec other than
  \<^verbatim>\<open>copy\<close>, the compiled arguments carry the orientation-safe filter right after
  the input.  On an input that is wider than high the transcoder sets the height to
  720 (\<^verbatim>\<open>turbo\<close>) or 480 (\<^verbatim>\<open>max\<close>) and computes the width; on any other input it
  sets the width to that value and computes the height.  The dimension it sets is
  the short edge: the computed one is never smaller.  The scale target of the
  resolution table has no influence on the arguments, and the frame rate is 24 when
  none was set.
\<close>

theorem orientation_safe_scale:
  assumes "ToLower (Codec opts) \<noteq> ''copy''"
    and "SpeedMode opts = ''turbo'' \<or> SpeedMode opts = ''max''"
    and "0 < iw" and "0 < ih"
  shows "buildFFmpegArgs inPath outPath opts =
           inputArgs inPath opts
           @ [''-vf'', videoFilter opts]
           @ (if FPS opts = 0 then [''-r'', ''24'']
              else if FPS opts > 0 then [''-r'', Itoa (FPS opts)] else [])
           @ videoArgs opts @ tuneArgs opts @ audioArgs opts
           @ [''-movflags'', ''+faststart'', ''-threads'', ''0'', outPath]
         \<and> videoFilter opts =
             (if SpeedMode opts = ''turbo''
              then ''scale='if(gt(a,1),-2,720)':'if(gt(a,1),720,-2)':flags=fast_bilinear,setsar=1''
              else ''scale='if(gt(a,1),-2,480)':'if(gt(a,1),480,-2)':flags=fast_bilinear,setsar=1'')
         \<and> scaleOutput (videoFilter opts) iw ih =
             Some (if ih < iw
                   then (rescale (previewEdge opts) iw (ih * 2) * 2, previewEdge opts)
                   else (previewEdge opts, rescale (previewEdge opts) ih (iw * 2) * 2))
         \<and> (ih < iw \<longrightarrow> previewEdge opts \<le> rescale (previewEdge opts) iw (ih * 2) * 2)
         \<and> (iw \<le> ih \<longrightarrow> previewEdge opts \<le> rescale (previewEdge opts) ih (iw * 2) * 2)
         \<and> buildFFmpegArgs inPath outPath (opts\<lparr>Scale := s\<rparr>) =
             buildFFmpegArgs inPath outPath opts"
proof -
  have vf: "videoFilter opts =
             (if SpeedMode opts = ''turbo''
              then ''scale='if(gt(a,1),-2,720)':'if(gt(a,1),720,-2)':flags=fast_bilinear,setsar=1''
              else ''scale='if(gt(a,1),-2,480)':'if(gt(a,1),480,-2)':flags=fast_bilinear,setsar=1'')"
    using assms(1,2) by (auto simp add: videoFilter_def)
  have ne: "videoFilter opts \<noteq> ''''"
    using assms(1,2) by (auto simp add: videoFilter_def)
  have fps: "fpsArgs opts = (if FPS opts = 0 then [''-r'', ''24'']
              else if FPS opts > 0 then [''-r'', Itoa (FPS opts)] else [])"
    using assms(1,2) by (auto simp add: fpsArgs_def scaledFPS_def Itoa_24)
  have parsed: "parseScale (videoFilter opts) =
      Some (IfLandscape (- 2) (previewEdge opts), IfLandscape (previewEdge opts) (- 2))"
    unfolding vf previewEdge_def by (simp add: parseScale_turbo parseScale_max)
  have pos: "0 < previewEdge opts"
    by (simp add: previewEdge_def)
  have out: "scaleOutput (videoFilter opts) iw ih =
             Some (if ih < iw
                   then (rescale (previewEdge opts) iw (ih * 2) * 2, previewEdge opts)
                   else (previewEdge opts, rescale (previewEdge opts) ih (iw * 2) * 2))"
    unfolding scaleOutput_def parsed
    by (simp add: evalDim_def scaleDims_auto_width [OF pos] scaleDims_auto_height [OF pos])
  have even: "previewEdge opts = 2 * (previewEdge opts div 2)" "0 \<le> previewEdge opts div 2"
    by (simp_all add: previewEdge_def)
  have wide: "previewEdge opts \<le> rescale (previewEdge opts) iw (ih * 2) * 2" if "ih < iw"
    using rescale_ge [of ih iw "previewEdge opts div 2"] that assms(4) even by simp
  have high: "previewEdge opts \<le> rescale (previewEdge opts) ih (iw * 2) * 2" if "iw \<le> ih"
    using rescale_ge [of iw ih "previewEdge opts div 2"] that assms(3) even by simp
  have "videoFilter (opts\<lparr>Scale := s\<rparr>) = videoFilter opts"
    using assms(1,2) by (auto simp add: videoFilter_def)
  then have "filterArgs (opts\<lparr>Scale := s\<rparr>) = filterArgs opts"
    by (simp add: filterArgs_def)
  then have same: "buildFFmpegArgs inPath outPath (opts\<lparr>Scale := s\<rparr>) =
             buildFFmpegArgs inPath outPath opts"
    by (simp add: buildFFmpegArgs_def Scale_irrelevant)
  have args: "buildFFmpegArgs inPath outPath opts =
           inputArgs inPath opts
           @ [''-vf'', videoFilter opts]
           @ (if FPS opts = 0 then [''-r'', ''24'']
              else if FPS opts > 0 then [''-r'', Itoa (FPS opts)] else [])
           @ videoArgs opts @ tuneArgs opts @ audioArgs opts
           @ [''-movflags'', ''+faststart'', ''-threads'', ''0'', outPath]"
    unfolding buildFFmpegArgs_def filterArgs_def fps using ne by simp
  show ?thesis
    using args vf out wide high same by blast
qed

text \<open>
  A \<^verbatim>\<open>turbo\<close> request for the 1080p tier with no frame rate, on a portrait input of
  1080 by 1920, and a \<^verbatim>\<open>max\<close> request with 30 frames per second on a square input.
\<close>

theorem orientation_safe_scale_witness:
  "ToLower (Codec (compiledOpts (emptyForm(''speed'' := ''turbo'', ''resolution'' := ''1080p''))
      (Some 52428800))) \<noteq> ''copy''
   \<and> take 10 (buildFFmpegArgs ''/tmp/in.mp4'' ''/tmp/in_compressed.mp4''
        (compiledOpts (emptyForm(''speed'' := ''turbo'', ''resolution'' := ''1080p''))
          (Some 52428800))) =
       [''-y'', ''-hide_banner'', ''-loglevel'', ''error'', ''-i'', ''/tmp/in.mp4'', ''-vf'',
        ''scale='if(gt(a,1),-2,720)':'if(gt(a,1),720,-2)':flags=fast_bilinear,setsar=1'',
        ''-r'', ''24'']
   \<and> scaleOutput (videoFilter (compiledOpts
        (emptyForm(''speed'' := ''turbo'', ''resolution'' := ''1080p'')) (Some 52428800)))
        1080 1920 = Some (720, 1280)
   \<and> take 10 (buildFFmpegArgs ''/tmp/in.mp4'' ''/tmp/in_compressed.mp4''
        (compiledOpts (emptyForm(''speed'' := ''max'', ''fps'' := ''30'')) (Some 52428800))) =
       [''-y'', ''-hide_banner'', ''-loglevel'', ''error'', ''-i'', ''/tmp/in.mp4'', ''-vf'',
        ''scale='if(gt(a,1),-2,480)':'if(gt(a,1),480,-2)':flags=fast_bilinear,setsar=1'',
        ''-r'', ''30'']
   \<and> scaleOutput (videoFilter (compiledOpts
        (emptyForm(''speed'' := ''max'', ''fps'' := ''30'')) (Some 52428800)))
        1000 1000 = Some (480, 480)"
proof -
  let ?t = "compiledOpts (emptyForm(''speed'' := ''turbo'', ''resolution'' := ''1080p''))
      (Some 52428800)"
  let ?m = "compiledOpts (emptyForm(''speed'' := ''max'', ''fps'' := ''30'')) (Some 52428800)"
  have t: "ToLower (Codec ?t) \<noteq> ''copy''" "SpeedMode ?t = ''turbo'' \<or> SpeedMode ?t = ''max''"
    by code_simp+
  have m: "ToLower (Codec ?m) \<noteq> ''copy''" "SpeedMode ?m = ''turbo'' \<or> SpeedMode ?m = ''max''"
    by code_simp+
  have v: "inputArgs ''/tmp/in.mp4'' ?t =
      [''-y'', ''-hide_banner'', ''-loglevel'', ''error'', ''-i'', ''/tmp/in.mp4'']"
    "inputArgs ''/tmp/in.mp4'' ?m =
      [''-y'', ''-hide_banner'', ''-loglevel'', ''error'', ''-i'', ''/tmp/in.mp4'']"
    "SpeedMode ?t = ''turbo''" "SpeedMode ?m = ''max''" "FPS ?t = 0" "FPS ?m = 30"
    "Itoa 30 = ''30''" "previewEdge ?t = 720" "previewEdge ?m = 480"
    by code_simp+
  have p: "(0::int) < 1080" "(0::int) < 1920" "(0::int) < 1000"
    by simp_all
  note T = orientation_safe_scale [OF t p(1) p(2), of "''/tmp/in.mp4''" "''/tmp/in_compressed.mp4''"]
  note M = orientation_safe_scale [OF m p(3) p(3), of "''/tmp/in.mp4''" "''/tmp/in_compressed.mp4''"]
  have "scaleOutput (videoFilter ?t) 1080 1920 =
      Some (if (1920::int) < 1080
            then (rescale (previewEdge ?t) 1080 (1920 * 2) * 2, previewEdge ?t)
            else (previewEdge ?t, rescale (previewEdge ?t) 1920 (1080 * 2) * 2))"
    using T by blast
  then have outT: "scaleOutput (videoFilter ?t) 1080 1920 = Some (720, 1280)"
    by (simp add: v rescale_def)
  have "scaleOutput (videoFilter ?m) 1000 1000 =
      Some (if (1000::int) < 1000
            then (rescale (previewEdge ?m) 1000 (1000 * 2) * 2, previewEdge ?m)
            else (previewEdge ?m, rescale (previewEdge ?m) 1000 (1000 * 2) * 2))"
    using M by blast
  then have outM: "scaleOutput (videoFilter ?m) 1000 1000 = Some (480, 480)"
    by (simp add: v rescale_def)
  have vfT: "videoFilter ?t =
      ''scale='if(gt(a,1),-2,720)':'if(gt(a,1),720,-2)':flags=fast_bilinear,setsar=1''"
    using T v(3) by simp
  have vfM: "videoFilter ?m =
      ''scale='if(gt(a,1),-2,480)':'if(gt(a,1),480,-2)':flags=fast_bilinear,setsar=1''"
    using M v(4) by simp
  have "buildFFmpegArgs ''/tmp/in.mp4'' ''/tmp/in_compressed.mp4'' ?t =
           inputArgs ''/tmp/in.mp4'' ?t
           @ [''-vf'', videoFilter ?t]
           @ (if FPS ?t = 0 then [''-r'', ''24'']
              else if FPS ?t > 0 then [''-r'', Itoa (FPS ?t)] else [])
           @ videoArgs ?t @ tuneArgs ?t @ audioArgs ?t
           @ [''-movflags'', ''+faststart'', ''-threads'', ''0'', ''/tmp/in_compressed.mp4'']"
    using T by blast
  then have argsT: "take 10 (buildFFmpegArgs ''/tmp/in.mp4'' ''/tmp/in_compressed.mp4'' ?t) =
       [''-y'', ''-hide_banner'', ''-loglevel'', ''error'', ''-i'', ''/tmp/in.mp4'', ''-vf'',
        ''scale='if(gt(a,1),-2,720)':'if(gt(a,1),720,-2)':flags=fast_bilinear,setsar=1'',
        ''-r'', ''24'']"
    by (simp add: v(1,5) vfT)
  have "buildFFmpegArgs ''/tmp/in.mp4'' ''/tmp/in_compressed.mp4'' ?m =
           inputArgs ''/tmp/in.mp4'' ?m
           @ [''-vf'', videoFilter ?m]
           @ (if FPS ?m = 0 then [''-r'', ''24'']
              else if FPS ?m > 0 then [''-r'', Itoa (FPS ?m)] else [])
           @ videoArgs ?m @ tuneArgs ?m @ audioArgs ?m
           @ [''-movflags'', ''+faststart'', ''-threads'', ''0'', ''/tmp/in_compressed.mp4'']"
    using M by blast
  then have argsM: "take 10 (buildFFmpegArgs ''/tmp/in.mp4'' ''/tmp/in_compressed.mp4'' ?m) =
       [''-y'', ''-hide_banner'', ''-loglevel'', ''error'', ''-i'', ''/tmp/in.mp4'', ''-vf'',
        ''scale='if(gt(a,1),-2,480)':'if(gt(a,1),480,-2)':flags=fast_bilinear,setsar=1'',
        ''-r'', ''30'']"
    by (simp add: v(2,6,7) vfM)
  show ?thesis
    using t(1) argsT outT argsM outM by (intro conjI)
qed

text \<open>
  The claim as stated, with the long edge bounded, fails.  A landscape input of 1920
  by 1080 leaves a \<^verbatim>\<open>turbo\<close> request as 1280 by 720 and a \<^verbatim>\<open>max\<close> request as 854 by
  480: the long edge is above 720 and 480.  A landscape input of 640 by 360 is
  enlarged by a \<^verbatim>\<open>turbo\<close> request to 1280 by 720.
\<close>

theorem long_edge_counterexample:
  "scaleOutput (videoFilter (compiledOpts (emptyForm(''speed'' := ''turbo'')) (Some 52428800)))
     1920 1080 = Some (1280, 720)
   \<and> scaleOutput (videoFilter (compiledOpts (emptyForm(''speed'' := ''max'')) (Some 52428800)))
     1920 1080 = Some (854, 480)
   \<and> scaleOutput (videoFilter (compiledOpts (emptyForm(''speed'' := ''turbo'')) (Some 52428800)))
     640 360 = Some (1280, 720)"
  by code_simp

text \<open>The arguments that the blocks of the compiler can contribute under \<^verbatim>\<open>copy\<close>.\<close>

lemma inputArgs_mem:
  "a \<in> set (inputArgs inPath opts) \<Longrightarrow>
     a = inPath \<or> a \<in> set [''-y'', ''-hide_banner'', ''-loglevel'', ''error'', ''-hwaccel'',
       ''videotoolbox'', ''-hwaccel_output_format'', ''-i'']"
  unfolding inputArgs_def by (cases "ToLower (HW opts) = ''videotoolbox''") auto

lemma audioArgs_mem:
  "a \<in> set (audioArgs opts) \<Longrightarrow>
     a = AB opts \<or> a \<in> set [''-c:a'', ''copy'', ''libopus'', ''aac'', ''-b:a'', ''-ac'', ''2'',
       ''1'', ''96k'', ''64k'']"
  unfolding audioArgs_def by (auto split: if_splits)

lemma passthrough_eq:
  assumes "ToLower (Codec opts) = ''copy''"
  shows "buildFFmpegArgs inPath outPath opts =
           inputArgs inPath opts @ [''-c:v'', ''copy''] @ audioArgs opts
           @ [''-movflags'', ''+faststart'', ''-threads'', ''0'', outPath]"
proof -
  have vc: "vcodec opts = ''copy''"
    using assms by (simp add: vcodec_copy_iff)
  show ?thesis
    using assms vc
    by (simp add: buildFFmpegArgs_def filterArgs_def videoFilter_def fpsArgs_def videoArgs_def
        tuneArgs_def)
qed

lemma passthrough_mem:
  assumes "ToLower (Codec opts) = ''copy''"
    and "a \<in> set (buildFFmpegArgs inPath outPath opts)"
    and "a \<notin> set [''-y'', ''-hide_banner'', ''-loglevel'', ''error'', ''-hwaccel'',
       ''videotoolbox'', ''-hwaccel_output_format'', ''-i'']"
    and "a \<notin> set [''-c:v'', ''copy'']"
    and "a \<notin> set [''-c:a'', ''copy'', ''libopus'', ''aac'', ''-b:a'', ''-ac'', ''2'',
       ''1'', ''96k'', ''64k'']"
    and "a \<notin> set [''-movflags'', ''+faststart'', ''-threads'', ''0'']"
  shows "a \<in> {inPath, outPath, AB opts}"
proof -
  have "buildFFmpegArgs inPath outPath opts =
          inputArgs inPath opts @ [''-c:v'', ''copy''] @ audioArgs opts
          @ [''-movflags'', ''+faststart'', ''-threads'', ''0''] @ [outPath]"
    using passthrough_eq [OF assms(1)] by simp
  then have "set (buildFFmpegArgs inPath outPath opts) =
          set (inputArgs inPath opts) \<union> set [''-c:v'', ''copy''] \<union> set (audioArgs opts)
          \<union> set [''-movflags'', ''+faststart'', ''-threads'', ''0''] \<union> set [outPath]"
    by (simp only: set_append Un_assoc)
  moreover have "set [outPath] = {outPath}"
    by simp
  ultimately show ?thesis
    using assms(2-) inputArgs_mem [of a inPath opts] audioArgs_mem [of a opts] by blast
qed

text \<open>
  Claim C6.  With the video codec \<^verbatim>\<open>copy\<close> (in any letter case) the compiled arguments
  are the input block, \<^verbatim>\<open>-c:v copy\<close>, the audio block and the closing flags, whatever
  the mode, the resolution tier, the hardware flag and the output extension: no
  filter, no frame rate, no quality, preset or bitrate, no pixel format and no
  tuning flags.  A flag among \<^verbatim>\<open>-vf\<close>, \<^verbatim>\<open>-pix_fmt\<close>, \<^verbatim>\<open>-crf\<close>, \<^verbatim>\<open>-preset\<close> and
  \<^verbatim>\<open>-b:v\<close> can only occur in them as a value the caller supplied (a path or the audio
  bitrate).
\<close>

theorem passthrough_args:
  assumes "ToLower (Codec opts) = ''copy''"
  shows "buildFFmpegArgs inPath outPath opts =
           inputArgs inPath opts @ [''-c:v'', ''copy''] @ audioArgs opts
           @ [''-movflags'', ''+faststart'', ''-threads'', ''0'', outPath]
         \<and> (\<forall>flag \<in> {''-vf'', ''-pix_fmt'', ''-crf'', ''-preset'', ''-b:v''}.
              flag \<in> set (buildFFmpegArgs inPath outPath opts)
              \<longrightarrow> flag \<in> {inPath, outPath, AB opts})"
proof -
  have "''-vf'' \<in> {inPath, outPath, AB opts}"
    if "''-vf'' \<in> set (buildFFmpegArgs inPath outPath opts)"
    by (rule passthrough_mem [OF assms that]) simp_all
  moreover have "''-pix_fmt'' \<in> {inPath, outPath, AB opts}"
    if "''-pix_fmt'' \<in> set (buildFFmpegArgs inPath outPath opts)"
    by (rule passthrough_mem [OF assms that]) simp_all
  moreover have "''-crf'' \<in> {inPath, outPath, AB opts}"
    if "''-crf'' \<in> set (buildFFmpegArgs inPath outPath opts)"
    by (rule passthrough_mem [OF assms that]) simp_all
  moreover have "''-preset'' \<in> {inPath, outPath, AB opts}"
    if "''-preset'' \<in> set (buildFFmpegArgs inPath outPath opts)"
    by (rule passthrough_mem [OF assms that]) simp_all
  moreover have "''-b:v'' \<in> {inPath, outPath, AB opts}"
    if "''-b:v'' \<in> set (buildFFmpegArgs inPath outPath opts)"
    by (rule passthrough_mem [OF assms that]) simp_all
  ultimately have "\<forall>flag \<in> {''-vf'', ''-pix_fmt'', ''-crf'', ''-preset'', ''-b:v''}.
              flag \<in> set (buildFFmpegArgs inPath outPath opts)
              \<longrightarrow> flag \<in> {inPath, outPath, AB opts}"
    by blast
  then show ?thesis
    using passthrough_eq [OF assms] by blast
qed

text \<open>
  A \<^verbatim>\<open>turbo\<close> request with codec \<^verbatim>\<open>COPY\<close>, the 720p tier, hardware on and a frame
  rate.
\<close>

theorem passthrough_args_witness:
  "ToLower (Codec (compiledOpts (emptyForm(''codec'' := ''COPY'', ''speed'' := ''turbo'',
      ''resolution'' := ''720p'', ''hw'' := ''videotoolbox'', ''fps'' := ''30'')) (Some 52428800)))
     = ''copy''
   \<and> buildFFmpegArgs ''/tmp/in.mov'' ''/tmp/in_compressed.mp4''
       (compiledOpts (emptyForm(''codec'' := ''COPY'', ''speed'' := ''turbo'',
          ''resolution'' := ''720p'', ''hw'' := ''videotoolbox'', ''fps'' := ''30''))
          (Some 52428800)) =
       [''-y'', ''-hide_banner'', ''-loglevel'', ''error'', ''-hwaccel'', ''videotoolbox'',
        ''-hwaccel_output_format'', ''videotoolbox'', ''-i'', ''/tmp/in.mov'', ''-c:v'', ''copy'',
        ''-c:a'', ''aac'', ''-b:a'', ''96k'', ''-ac'', ''2'', ''-b:a'', ''96k'',
        ''-movflags'', ''+faststart'', ''-threads'', ''0'', ''/tmp/in_compressed.mp4'']"
proof -
  let ?c = "compiledOpts (emptyForm(''codec'' := ''COPY'', ''speed'' := ''turbo'',
      ''resolution'' := ''720p'', ''hw'' := ''videotoolbox'', ''fps'' := ''30'')) (Some 52428800)"
  have c: "ToLower (Codec ?c) = ''copy''"
    by code_simp
  have "inputArgs ''/tmp/in.mov'' ?c =
      [''-y'', ''-hide_banner'', ''-loglevel'', ''error'', ''-hwaccel'', ''videotoolbox'',
       ''-hwaccel_output_format'', ''videotoolbox'', ''-i'', ''/tmp/in.mov'']"
    "audioArgs ?c = [''-c:a'', ''aac'', ''-b:a'', ''96k'', ''-ac'', ''2'', ''-b:a'', ''96k'']"
    by code_simp+
  then show ?thesis
    using c passthrough_args [OF c, of "''/tmp/in.mov''" "''/tmp/in_compressed.mp4''"]
    by simp
qed

text \<open>
  Claim C7, as amended.  When the audio codec is neither \<^verbatim>\<open>copy\<close> nor \<^verbatim>\<open>opus\<close> (so
  the encoder is \<^verbatim>\<open>aac\<close>), mode \<^verbatim>\<open>turbo\<close> appends stereo and 96k after the configured
  bitrate, and mode \<^verbatim>\<open>max\<close> appends mono and 64k after it, whatever the configured
  bitrate is; the audio block is followed only by the closing flags.
\<close>

theorem audio_override_aac:
  assumes "ToLower (Audio opts) \<noteq> ''copy''" and "ToLower (Audio opts) \<noteq> ''opus''"
  shows "(SpeedMode opts = ''turbo'' \<longrightarrow>
            audioArgs opts = [''-c:a'', ''aac'', ''-b:a'', AB opts, ''-ac'', ''2'', ''-b:a'', ''96k''])
         \<and> (SpeedMode opts = ''max'' \<longrightarrow>
            audioArgs opts = [''-c:a'', ''aac'', ''-b:a'', AB opts, ''-ac'', ''1'', ''-b:a'', ''64k''])
         \<and> suffix (audioArgs opts @ [''-movflags'', ''+faststart'', ''-threads'', ''0'', outPath])
              (buildFFmpegArgs inPath outPath opts)"
proof -
  have "suffix (audioArgs opts @ [''-movflags'', ''+faststart'', ''-threads'', ''0'', outPath])
              (buildFFmpegArgs inPath outPath opts)"
    unfolding buildFFmpegArgs_def suffix_def
    by (rule exI [of _ "inputArgs inPath opts @ filterArgs opts @ fpsArgs opts @ videoArgs opts
          @ tuneArgs opts"]) simp
  then show ?thesis
    using assms by (simp add: audioArgs_def)
qed

text \<open>Options with a configured bitrate of 192k, in both modes.\<close>

theorem audio_override_aac_witness:
  "ToLower ''AAC'' \<noteq> ''copy'' \<and> ToLower ''AAC'' \<noteq> ''opus''
   \<and> audioArgs (zeroOpts\<lparr>Audio := ''AAC'', AB := ''192k'', SpeedMode := ''turbo''\<rparr>) =
       [''-c:a'', ''aac'', ''-b:a'', ''192k'', ''-ac'', ''2'', ''-b:a'', ''96k'']
   \<and> audioArgs (zeroOpts\<lparr>Audio := ''AAC'', AB := ''192k'', SpeedMode := ''max''\<rparr>) =
       [''-c:a'', ''aac'', ''-b:a'', ''192k'', ''-ac'', ''1'', ''-b:a'', ''64k'']"
proof -
  have a: "ToLower ''AAC'' \<noteq> ''copy''" "ToLower ''AAC'' \<noteq> ''opus''"
    by code_simp+
  show ?thesis
    using a
      audio_override_aac [of "zeroOpts\<lparr>Audio := ''AAC'', AB := ''192k'', SpeedMode := ''turbo''\<rparr>"]
      audio_override_aac [of "zeroOpts\<lparr>Audio := ''AAC'', AB := ''192k'', SpeedMode := ''max''\<rparr>"]
    by (simp add: zeroOpts_def)
qed

text \<open>
  The claim as stated, for every audio codec, fails: a \<^verbatim>\<open>turbo\<close> request with
  \<^verbatim>\<open>opus\<close> gets the profile's 96k and no channel count, a \<^verbatim>\<open>max\<close> request with
  \<^verbatim>\<open>opus\<close> gets 64k and no channel count, and with \<^verbatim>\<open>copy\<close> neither a bitrate nor a
  channel count is emitted.
\<close>

theorem audio_override_counterexample:
  "audioArgs (compiledOpts (emptyForm(''audio'' := ''opus'', ''speed'' := ''turbo'')) (Some 52428800))
     = [''-c:a'', ''libopus'', ''-b:a'', ''96k'']
   \<and> audioArgs (compiledOpts (emptyForm(''audio'' := ''opus'', ''speed'' := ''max'')) (Some 52428800))
     = [''-c:a'', ''libopus'', ''-b:a'', ''64k'']
   \<and> audioArgs (compiledOpts (emptyForm(''audio'' := ''copy'', ''speed'' := ''turbo'')) (Some 52428800))
     = [''-c:a'', ''copy'']
   \<and> ''-ac'' \<notin> set (buildFFmpegArgs ''/tmp/in.mp4'' ''/tmp/in_compressed.mp4''
        (compiledOpts (emptyForm(''audio'' := ''opus'', ''speed'' := ''turbo'')) (Some 52428800)))"
  by code_simp

lemma bitsPerSecond_values:
  "bitsPerSecond ''5M'' = Some 5000000"
  "bitsPerSecond ''4M'' = Some 4000000"
  "bitsPerSecond ''3M'' = Some 3000000"
  "bitsPerSecond ''2.5M'' = Some 2500000"
  "bitsPerSecond ''2M'' = Some 2000000"
  "bitsPerSecond ''1500k'' = Some 1500000"
  "bitsPerSecond ''2500k'' = Some 2500000"
  by code_simp+

lemma bitrate_value:
  "bitsPerSecond (bitrate opts) =
     Some (if SpeedMode opts = ''turbo'' then 2500000 else ladderBitrate (CRF opts))"
  by (simp add: bitrate_def ladderBitrate_def bitsPerSecond_values)

text \<open>
  Claim C8.  With hardware on (\<^verbatim>\<open>videotoolbox\<close>) and a video codec other than
  \<^verbatim>\<open>copy\<close>, the encoder is a hardware encoder and the quality parameter is passed as
  the bitrate of the ladder: up to 20 gives 5M, up to 23 gives 4M, up to 26 gives 3M,
  up to 30 gives 2.5M, up to 36 gives 2M and anything above gives 1.5M, written
  \<^verbatim>\<open>1500k\<close>; in mode \<^verbatim>\<open>turbo\<close> the bitrate is 2.5M, written \<^verbatim>\<open>2500k\<close>, for every
  quality parameter.
\<close>

theorem hardware_bitrate_ladder:
  assumes "ToLower (HW opts) = ''videotoolbox''" and "ToLower (Codec opts) \<noteq> ''copy''"
  shows "buildFFmpegArgs inPath outPath opts =
           inputArgs inPath opts @ filterArgs opts @ fpsArgs opts
           @ [''-c:v'', vcodec opts, ''-b:v'', bitrate opts]
           @ (if ToLower (OutExt opts) = ''.mp4'' then [''-pix_fmt'', ''yuv420p''] else [])
           @ tuneArgs opts @ audioArgs opts
           @ [''-movflags'', ''+faststart'', ''-threads'', ''0'', outPath]
         \<and> (vcodec opts = ''h264_videotoolbox'' \<or> vcodec opts = ''hevc_videotoolbox'')
         \<and> (SpeedMode opts = ''turbo'' \<longrightarrow> bitrate opts = ''2500k'')
         \<and> (SpeedMode opts \<noteq> ''turbo'' \<longrightarrow>
              bitrate opts =
                (if CRF opts \<le> 20 then ''5M''
                 else if CRF opts \<le> 23 then ''4M''
                 else if CRF opts \<le> 26 then ''3M''
                 else if CRF opts \<le> 30 then ''2.5M''
                 else if CRF opts \<le> 36 then ''2M''
                 else ''1500k''))
         \<and> bitsPerSecond (bitrate opts) =
             Some (if SpeedMode opts = ''turbo'' then 2500000 else ladderBitrate (CRF opts))"
proof -
  have vc: "vcodec opts = ''h264_videotoolbox'' \<or> vcodec opts = ''hevc_videotoolbox''"
    using assms by (simp add: vcodec_def)
  then have "videoArgs opts = [''-c:v'', vcodec opts, ''-b:v'', bitrate opts]
           @ (if ToLower (OutExt opts) = ''.mp4'' then [''-pix_fmt'', ''yuv420p''] else [])"
    by (auto simp add: videoArgs_def)
  then have "buildFFmpegArgs inPath outPath opts =
           inputArgs inPath opts @ filterArgs opts @ fpsArgs opts
           @ [''-c:v'', vcodec opts, ''-b:v'', bitrate opts]
           @ (if ToLower (OutExt opts) = ''.mp4'' then [''-pix_fmt'', ''yuv420p''] else [])
           @ tuneArgs opts @ audioArgs opts
           @ [''-movflags'', ''+faststart'', ''-threads'', ''0'', outPath]"
    by (simp add: buildFFmpegArgs_def)
  moreover have "SpeedMode opts = ''turbo'' \<longrightarrow> bitrate opts = ''2500k''"
    by (simp add: bitrate_def)
  moreover have "SpeedMode opts \<noteq> ''turbo'' \<longrightarrow>
              bitrate opts =
                (if CRF opts \<le> 20 then ''5M''
                 else if CRF opts \<le> 23 then ''4M''
                 else if CRF opts \<le> 26 then ''3M''
                 else if CRF opts \<le> 30 then ''2.5M''
                 else if CRF opts \<le> 36 then ''2M''
                 else ''1500k'')"
    by (simp add: bitrate_def)
  ultimately show ?thesis
    using vc bitrate_value [of opts] by blast
qed

text \<open>
  Hardware requests in the modes \<^verbatim>\<open>quality\<close> (23), \<^verbatim>\<open>super_fast\<close> (30), \<^verbatim>\<open>max\<close> (36)
  and \<^verbatim>\<open>turbo\<close> (34), and options with the quality parameters 20 and 37.
\<close>

theorem hardware_bitrate_ladder_witness:
  "ToLower ''VideoToolbox'' = ''videotoolbox'' \<and> ToLower ''h265'' \<noteq> ''copy''
   \<and> bitrate (compiledOpts (emptyForm(''hw'' := ''VideoToolbox'', ''codec'' := ''h265'',
        ''speed'' := ''quality'')) (Some 52428800)) = ''4M''
   \<and> bitrate (compiledOpts (emptyForm(''hw'' := ''VideoToolbox'', ''codec'' := ''h265'',
        ''speed'' := ''super_fast'')) (Some 52428800)) = ''2.5M''
   \<and> bitrate (compiledOpts (emptyForm(''hw'' := ''VideoToolbox'', ''codec'' := ''h265'',
        ''speed'' := ''max'')) (Some 52428800)) = ''2M''
   \<and> bitrate (compiledOpts (emptyForm(''hw'' := ''VideoToolbox'', ''codec'' := ''h265'',
        ''speed'' := ''turbo'')) (Some 52428800)) = ''2500k''
   \<and> bitrate (zeroOpts\<lparr>HW := ''VideoToolbox'', Codec := ''h265'', CRF := 20\<rparr>) = ''5M''
   \<and> bitrate (zeroOpts\<lparr>HW := ''VideoToolbox'', Codec := ''h265'', CRF := 37\<rparr>) = ''1500k''
   \<and> bitsPerSecond (bitrate (zeroOpts\<lparr>HW := ''VideoToolbox'', Codec := ''h265'', CRF := 37\<rparr>))
       = Some 1500000
   \<and> take 4 (videoArgs (compiledOpts (emptyForm(''hw'' := ''VideoToolbox'', ''codec'' := ''h265'',
        ''speed'' := ''quality'')) (Some 52428800))) = [''-c:v'', ''hevc_videotoolbox'', ''-b:v'', ''4M'']"
proof -
  let ?q = "compiledOpts (emptyForm(''hw'' := ''VideoToolbox'', ''codec'' := ''h265'',
        ''speed'' := ''quality'')) (Some 52428800)"
  let ?s = "compiledOpts (emptyForm(''hw'' := ''VideoToolbox'', ''codec'' := ''h265'',
        ''speed'' := ''super_fast'')) (Some 52428800)"
  let ?m = "compiledOpts (emptyForm(''hw'' := ''VideoToolbox'', ''codec'' := ''h265'',
        ''speed'' := ''max'')) (Some 52428800)"
  let ?t = "compiledOpts (emptyForm(''hw'' := ''VideoToolbox'', ''codec'' := ''h265'',
        ''speed'' := ''turbo'')) (Some 52428800)"
  let ?lo = "zeroOpts\<lparr>HW := ''VideoToolbox'', Codec := ''h265'', CRF := 20\<rparr>"
  let ?hi = "zeroOpts\<lparr>HW := ''VideoToolbox'', Codec := ''h265'', CRF := 37\<rparr>"
  have l: "ToLower ''VideoToolbox'' = ''videotoolbox''" "ToLower ''h265'' \<noteq> ''copy''"
    by code_simp+
  have hw: "ToLower (HW ?q) = ''videotoolbox''" "ToLower (HW ?s) = ''videotoolbox''"
    "ToLower (HW ?m) = ''videotoolbox''" "ToLower (HW ?t) = ''videotoolbox''"
    "ToLower (HW ?lo) = ''videotoolbox''" "ToLower (HW ?hi) = ''videotoolbox''"
    by code_simp+
  have co: "ToLower (Codec ?q) \<noteq> ''copy''" "ToLower (Codec ?s) \<noteq> ''copy''"
    "ToLower (Codec ?m) \<noteq> ''copy''" "ToLower (Codec ?t) \<noteq> ''copy''"
    "ToLower (Codec ?lo) \<noteq> ''copy''" "ToLower (Codec ?hi) \<noteq> ''copy''"
    by code_simp+
  have v: "SpeedMode ?q = ''quality''" "CRF ?q = 23" "SpeedMode ?s = ''super_fast''" "CRF ?s = 30"
    "SpeedMode ?m = ''max''" "CRF ?m = 36" "SpeedMode ?t = ''turbo''"
    "SpeedMode ?lo = ''''" "CRF ?lo = 20" "SpeedMode ?hi = ''''" "CRF ?hi = 37"
    "vcodec ?q = ''hevc_videotoolbox''" "videoArgs ?q = [''-c:v'', vcodec ?q, ''-b:v'', bitrate ?q, ''-pix_fmt'', ''yuv420p'']"
    by code_simp+
  show ?thesis
    using l v
      hardware_bitrate_ladder [OF hw(1) co(1)] hardware_bitrate_ladder [OF hw(2) co(2)]
      hardware_bitrate_ladder [OF hw(3) co(3)] hardware_bitrate_ladder [OF hw(4) co(4)]
      hardware_bitrate_ladder [OF hw(5) co(5)] hardware_bitrate_ladder [OF hw(6) co(6)]
    by (simp add: ladderBitrate_def bitsPerSecond_values)
qed

subsection \<open>Options the handler prepares\<close>

lemma requestOpts_eq:
  "requestOpts r st =
     applySpeedMode
       (tinyInputSafety
          (fst (decideMode (fst (parseOpts r))
             (case st of Some bytes \<Rightarrow> bytes sdiv (1024 * 1024) | None \<Rightarrow> 0)))
          (case st of Some bytes \<Rightarrow> bytes | None \<Rightarrow> 0))"
  by (simp add: requestOpts_def handlerOpts_eq)

lemma tinyInputSafety_Scale:
  "Scale (tinyInputSafety opts fileSize) = '''' \<or> Scale (tinyInputSafety opts fileSize) = Scale opts"
  by (simp add: tinyInputSafety_def Let_def)

lemma get_other: "key \<noteq> k \<Longrightarrow> get (r(k := v)) key def = get r key def"
  by (simp add: get_def)

lemma parseOpts_speed_update:
  assumes "r ''speed'' \<noteq> ''''" and "m \<noteq> ''''"
  shows "fst (parseOpts (r(''speed'' := m))) = (fst (parseOpts r))\<lparr>SpeedMode := m\<rparr>"
proof -
  have "get (r(''speed'' := m)) ''speed'' ''ai'' = m" "get r ''speed'' ''ai'' = r ''speed''"
    using assms by (simp_all add: get_def)
  then show ?thesis
    unfolding parseOpts_eq normalize_eq applyResolution_eq
    using assms by (simp add: get_other split del: if_split cong: if_cong)
qed

lemma decideMode_manual:
  "SpeedMode opts \<noteq> ''ai'' \<Longrightarrow> decideMode opts sizeMB = (opts, ''manual'')"
  by (simp add: decideMode_def)

lemma tinyInputSafety_SpeedMode_update:
  "tinyInputSafety (opts\<lparr>SpeedMode := m\<rparr>) fileSize = (tinyInputSafety opts fileSize)\<lparr>SpeedMode := m\<rparr>"
  by (simp add: tinyInputSafety_def Let_def)

lemma applySpeedMode_default:
  assumes "SpeedMode opts \<notin> {''turbo'', ''max'', ''ultra_fast'', ''super_fast'', ''fast'', ''quality''}"
  shows "applySpeedMode opts =
     opts\<lparr>CRF := (if CRF opts = 0 then 26 else CRF opts),
          Preset := (if Preset opts = '''' then ''veryfast'' else Preset opts)\<rparr>"
  using assms by (simp add: applySpeedMode_def Let_def)


lemma applySpeedMode_SpeedMode_update:
  assumes "SpeedMode opts \<notin> {''turbo'', ''max'', ''ultra_fast'', ''super_fast'', ''fast'', ''quality''}"
  shows "applySpeedMode opts = (applySpeedMode (opts\<lparr>SpeedMode := ''balanced''\<rparr>))\<lparr>SpeedMode := SpeedMode opts\<rparr>"
proof -
  have "SpeedMode (opts\<lparr>SpeedMode := ''balanced''\<rparr>)
      \<notin> {''turbo'', ''max'', ''ultra_fast'', ''super_fast'', ''fast'', ''quality''}"
    by simp
  then show ?thesis
    unfolding applySpeedMode_default [OF assms] applySpeedMode_default [OF \<open>SpeedMode (opts\<lparr>SpeedMode := ''balanced''\<rparr>) \<notin> _\<close>]
    by (simp split del: if_split cong: if_cong)
qed

lemma unknown_mode_as_balanced:
  assumes "r ''speed'' \<notin> {'''', ''ai'', ''turbo'', ''max'', ''ultra_fast'', ''super_fast'', ''fast'', ''quality''}"
  shows "requestOpts r st = (requestOpts (r(''speed'' := ''balanced'')) st)\<lparr>SpeedMode := r ''speed''\<rparr>"
proof -
  let ?m = "case st of Some bytes \<Rightarrow> bytes sdiv (1024 * 1024) | None \<Rightarrow> 0"
  let ?b = "case st of Some bytes \<Rightarrow> bytes | None \<Rightarrow> 0"
  have ne: "r ''speed'' \<noteq> ''''"
    using assms by simp
  have mode: "SpeedMode (fst (parseOpts r)) = r ''speed''"
    using ne by (simp add: parseOpts_fields get_def)
  have upd: "fst (parseOpts (r(''speed'' := ''balanced''))) = (fst (parseOpts r))\<lparr>SpeedMode := ''balanced''\<rparr>"
    using ne by (simp add: parseOpts_speed_update)
  have "SpeedMode (fst (parseOpts r)) \<noteq> ''ai''"
    using assms mode by simp
  then have left: "requestOpts r st = applySpeedMode (tinyInputSafety (fst (parseOpts r)) ?b)"
    unfolding requestOpts_eq by (simp add: decideMode_manual)
  have right: "requestOpts (r(''speed'' := ''balanced'')) st =
      applySpeedMode ((tinyInputSafety (fst (parseOpts r)) ?b)\<lparr>SpeedMode := ''balanced''\<rparr>)"
    unfolding requestOpts_eq upd by (simp add: decideMode_manual tinyInputSafety_SpeedMode_update)
  have "SpeedMode (tinyInputSafety (fst (parseOpts r)) ?b) = r ''speed''"
    by (simp add: tinyInputSafety_fields mode)
  then show ?thesis
    unfolding left right
    using assms applySpeedMode_SpeedMode_update [of "tinyInputSafety (fst (parseOpts r)) ?b"]
    by simp
qed

lemma unknown_resolution_no_scale:
  assumes u: "r ''resolution'' \<notin> {''360p'', ''480p'', ''720p'', ''1080p'', ''1440p'', ''2160p''}"
  shows "Scale (fst (parseOpts r)) = '''' \<and> Scale (compiledOpts r st) = ''''"
proof -
  have p: "Scale (fst (parseOpts r)) = ''''"
    using u by (simp add: parseOpts_Scale)
  have t: "Resolution (requestOpts r st) = get r ''resolution'' ''original''"
    by (simp add: requestOpts_eq applySpeedMode_fields tinyInputSafety_fields decideMode_fields
        parseOpts_fields)
  have "Scale (requestOpts r st) = ''''"
    using p tinyInputSafety_Scale [of "fst (decideMode (fst (parseOpts r))
           (case st of Some bytes \<Rightarrow> bytes sdiv (1024 * 1024) | None \<Rightarrow> 0))"
          "case st of Some bytes \<Rightarrow> bytes | None \<Rightarrow> 0"]
    by (auto simp add: requestOpts_eq applySpeedMode_fields decideMode_fields)
  then have "Scale (compiledOpts r st) = ''''"
    using u unfolding compiledOpts_def normalize_Scale t by (simp add: get_def)
  with p show ?thesis
    by simp
qed

text \<open>
  Claim C9.  Option parsing never returns an error.  A resolution outside the six
  tiers leaves the scale target empty, in the parsed options and in the profile
  that is compiled.  A speed mode outside the named ones is treated as \<^verbatim>\<open>balanced\<close>:
  the handler prepares the same options as for \<^verbatim>\<open>balanced\<close> (the mode name apart),
  and the profile applied to freshly parsed options is quality 26, preset
  \<^verbatim>\<open>veryfast\<close> and the requested audio bitrate or 128k.  A video codec other than
  \<^verbatim>\<open>copy\<close> and \<^verbatim>\<open>h265\<close> is compiled as h264, an audio codec other than \<^verbatim>\<open>copy\<close> and
  \<^verbatim>\<open>opus\<close> as aac.
\<close>

theorem unknown_values_fall_back:
  "snd (parseOpts r) = None
   \<and> (r ''resolution'' \<notin> {''360p'', ''480p'', ''720p'', ''1080p'', ''1440p'', ''2160p''} \<longrightarrow>
        Scale (fst (parseOpts r)) = '''' \<and> Scale (compiledOpts r st) = '''')
   \<and> (r ''speed'' \<notin> {'''', ''ai'', ''turbo'', ''max'', ''ultra_fast'', ''super_fast'', ''fast'',
          ''quality''} \<longrightarrow>
        requestOpts r st = (requestOpts (r(''speed'' := ''balanced'')) st)\<lparr>SpeedMode := r ''speed''\<rparr>
        \<and> CRF (applySpeedMode (fst (parseOpts r))) = 26
        \<and> Preset (applySpeedMode (fst (parseOpts r))) = ''veryfast''
        \<and> AB (applySpeedMode (fst (parseOpts r))) = get r ''ab'' ''128k'')
   \<and> (ToLower (Codec opts) \<notin> {''copy'', ''h265''} \<longrightarrow>
        vcodec opts = (if ToLower (HW opts) = ''videotoolbox'' then ''h264_videotoolbox'' else ''libx264''))
   \<and> (ToLower (Audio opts) \<notin> {''copy'', ''opus''} \<longrightarrow> take 2 (audioArgs opts) = [''-c:a'', ''aac''])"
proof -
  have noerr: "snd (parseOpts r) = None"
    by (simp add: parseOpts_def Let_def)
  have res: "Scale (fst (parseOpts r)) = '''' \<and> Scale (compiledOpts r st) = ''''"
    if "r ''resolution'' \<notin> {''360p'', ''480p'', ''720p'', ''1080p'', ''1440p'', ''2160p''}"
    using that by (rule unknown_resolution_no_scale)
  have mode: "requestOpts r st = (requestOpts (r(''speed'' := ''balanced'')) st)\<lparr>SpeedMode := r ''speed''\<rparr>
        \<and> CRF (applySpeedMode (fst (parseOpts r))) = 26
        \<and> Preset (applySpeedMode (fst (parseOpts r))) = ''veryfast''
        \<and> AB (applySpeedMode (fst (parseOpts r))) = get r ''ab'' ''128k''"
    if u: "r ''speed'' \<notin> {'''', ''ai'', ''turbo'', ''max'', ''ultra_fast'', ''super_fast'', ''fast'',
          ''quality''}"
  proof -
    have "SpeedMode (fst (parseOpts r)) = r ''speed''"
      using u by (simp add: parseOpts_fields get_def)
    then have "SpeedMode (fst (parseOpts r))
        \<notin> {''turbo'', ''max'', ''ultra_fast'', ''super_fast'', ''fast'', ''quality''}"
      using u by simp
    then have "applySpeedMode (fst (parseOpts r)) = (fst (parseOpts r))
        \<lparr>CRF := (if CRF (fst (parseOpts r)) = 0 then 26 else CRF (fst (parseOpts r))),
         Preset := (if Preset (fst (parseOpts r)) = '''' then ''veryfast''
                    else Preset (fst (parseOpts r)))\<rparr>"
      by (rule applySpeedMode_default)
    then show ?thesis
      using u unknown_mode_as_balanced [of r st] by (simp add: parseOpts_fields)
  qed
  have codec: "vcodec opts = (if ToLower (HW opts) = ''videotoolbox'' then ''h264_videotoolbox'' else ''libx264'')"
    if "ToLower (Codec opts) \<notin> {''copy'', ''h265''}"
    using that by (simp add: vcodec_def)
  have audio: "take 2 (audioArgs opts) = [''-c:a'', ''aac'']"
    if "ToLower (Audio opts) \<notin> {''copy'', ''opus''}"
    using that by (simp add: audioArgs_def)
  show ?thesis
    using noerr res mode codec audio by blast
qed

text \<open>A request whose four enumeration values are all unknown.\<close>

theorem unknown_values_fall_back_witness:
  "snd (parseOpts (emptyForm(''speed'' := ''warp'', ''resolution'' := ''8k'', ''codec'' := ''av1'',
      ''audio'' := ''mp3''))) = None
   \<and> compiledOpts (emptyForm(''speed'' := ''warp'', ''resolution'' := ''8k'', ''codec'' := ''av1'',
      ''audio'' := ''mp3'')) (Some 52428800) =
     \<lparr>Codec = ''av1'', CRF = 26, Preset = ''veryfast'', Scale = '''', FPS = 0, Audio = ''mp3'',
      AB = ''128k'', HW = ''none'', OutExt = ''.mp4'', SpeedMode = ''warp'', Resolution = ''8k''\<rparr>
   \<and> requestOpts (emptyForm(''speed'' := ''warp'', ''resolution'' := ''8k'', ''codec'' := ''av1'',
      ''audio'' := ''mp3'')) (Some 52428800) =
     (requestOpts ((emptyForm(''speed'' := ''warp'', ''resolution'' := ''8k'', ''codec'' := ''av1'',
      ''audio'' := ''mp3''))(''speed'' := ''balanced'')) (Some 52428800))\<lparr>SpeedMode := ''warp''\<rparr>
   \<and> buildFFmpegArgs ''/tmp/in.mp4'' ''/tmp/in_compressed.mp4''
       (compiledOpts (emptyForm(''speed'' := ''warp'', ''resolution'' := ''8k'', ''codec'' := ''av1'',
          ''audio'' := ''mp3'')) (Some 52428800)) =
     [''-y'', ''-hide_banner'', ''-loglevel'', ''error'', ''-i'', ''/tmp/in.mp4'', ''-c:v'',
      ''libx264'', ''-crf'', ''26'', ''-preset'', ''veryfast'', ''-pix_fmt'', ''yuv420p'', ''-c:a'',
      ''aac'', ''-b:a'', ''128k'', ''-movflags'', ''+faststart'', ''-threads'', ''0'',
      ''/tmp/in_compressed.mp4'']"
proof -
  let ?r = "emptyForm(''speed'' := ''warp'', ''resolution'' := ''8k'', ''codec'' := ''av1'',
      ''audio'' := ''mp3'')"
  have u: "?r ''speed'' \<notin> {'''', ''ai'', ''turbo'', ''max'', ''ultra_fast'', ''super_fast'', ''fast'',
          ''quality''}"
    by (simp add: emptyForm_def)
  have "compiledOpts ?r (Some 52428800) =
     \<lparr>Codec = ''av1'', CRF = 26, Preset = ''veryfast'', Scale = '''', FPS = 0, Audio = ''mp3'',
      AB = ''128k'', HW = ''none'', OutExt = ''.mp4'', SpeedMode = ''warp'', Resolution = ''8k''\<rparr>"
    by code_simp
  moreover have "buildFFmpegArgs ''/tmp/in.mp4'' ''/tmp/in_compressed.mp4''
       (compiledOpts ?r (Some 52428800)) =
     [''-y'', ''-hide_banner'', ''-loglevel'', ''error'', ''-i'', ''/tmp/in.mp4'', ''-c:v'',
      ''libx264'', ''-crf'', ''26'', ''-preset'', ''veryfast'', ''-pix_fmt'', ''yuv420p'', ''-c:a'',
      ''aac'', ''-b:a'', ''128k'', ''-movflags'', ''+faststart'', ''-threads'', ''0'',
      ''/tmp/in_compressed.mp4'']"
    by code_simp
  ultimately show ?thesis
    using u unknown_values_fall_back [of ?r "Some 52428800"] by simp
qed






subsection \<open>The safety step for very small inputs\<close>

lemma tinyInputSafety_tiny:
  "fileSize sdiv (1024 * 1024) < 10 \<Longrightarrow>
     tinyInputSafety opts fileSize =
       opts\<lparr>Codec := ''h264'', Audio := ''aac'', Scale := '''', CRF := 22, Preset := ''veryfast'',
            HW := ''none''\<rparr>"
  by (simp add: tinyInputSafety_def Let_def)

text \<open>
  The safety step itself sets all six fields.  Of these, the codec, the audio codec
  and the hardware flag reach the compiler for every request on an input below
  10 MB.  The quality parameter and the preset reach it only when the mode that was
  decided has no profile of its own, because \<^verbatim>\<open>applySpeedMode\<close> runs after the safety
  step; the empty scale target reaches it only when the resolution is not one of the
  tiers, because \<^verbatim>\<open>runFFmpeg\<close> normalizes the options again.
\<close>

lemma tiny_input_codecs_and_hardware:
  assumes "bytes sdiv (1024 * 1024) < 10"
  shows "Codec (compiledOpts r (Some bytes)) = ''h264''
         \<and> Audio (compiledOpts r (Some bytes)) = ''aac''
         \<and> HW (compiledOpts r (Some bytes)) = ''none''"
  using assms
  by (simp add: compiledOpts_def normalize_fields requestOpts_eq applySpeedMode_fields
      tinyInputSafety_tiny)

lemma tiny_input_quality_when_unprofiled:
  assumes "bytes sdiv (1024 * 1024) < 10"
    and "SpeedMode (requestOpts r (Some bytes))
           \<notin> {''turbo'', ''max'', ''ultra_fast'', ''super_fast'', ''fast'', ''quality''}"
  shows "CRF (compiledOpts r (Some bytes)) = 22
         \<and> Preset (compiledOpts r (Some bytes)) = ''veryfast''"
proof -
  let ?d = "fst (decideMode (fst (parseOpts r)) (bytes sdiv (1024 * 1024)))"
  have mode: "SpeedMode (tinyInputSafety ?d bytes)
           \<notin> {''turbo'', ''max'', ''ultra_fast'', ''super_fast'', ''fast'', ''quality''}"
    using assms(2) by (simp add: requestOpts_eq applySpeedMode_fields)
  show ?thesis
    unfolding compiledOpts_def normalize_fields requestOpts_eq option.case
      applySpeedMode_default [OF mode]
    using assms(1) by (simp add: tinyInputSafety_tiny)
qed

lemma tiny_input_automatic_mode:
  assumes "bytes sdiv (1024 * 1024) < 10" and "r ''speed'' = '''' \<or> r ''speed'' = ''ai''"
  shows "SpeedMode (requestOpts r (Some bytes)) = ''balanced''"
proof -
  have "SpeedMode (fst (parseOpts r)) = ''ai''"
    using assms(2) by (auto simp add: parseOpts_fields get_def)
  then show ?thesis
    using assms(1) by (simp add: requestOpts_SpeedMode decideMode_def chooseSpeedBySize_def Let_def)
qed

lemma tiny_input_scale_when_no_tier:
  assumes "bytes sdiv (1024 * 1024) < 10"
    and "r ''resolution'' \<notin> {''360p'', ''480p'', ''720p'', ''1080p'', ''1440p'', ''2160p''}"
  shows "Scale (compiledOpts r (Some bytes)) = ''''"
  using assms(2) unknown_resolution_no_scale [of r "Some bytes"] by simp

text \<open>
  Claim C1 does not hold of the code.  A request with speed \<^verbatim>\<open>ultra_fast\<close> and
  resolution \<^verbatim>\<open>720p\<close> on an input of 5 MB: the safety step sets quality 22, preset
  \<^verbatim>\<open>veryfast\<close> and an empty scale target, but the profile that reaches the compiler
  has quality 32, preset \<^verbatim>\<open>ultrafast\<close> and the scale target 1280:720, and the
  compiled arguments scale the video.
\<close>

theorem tiny_input_profile_overwritten:
  "(5242880 :: int) sdiv (1024 * 1024) = 5
   \<and> tinyInputSafety
        (fst (parseOpts (emptyForm(''speed'' := ''ultra_fast'', ''resolution'' := ''720p''))))
        5242880 =
      \<lparr>Codec = ''h264'', CRF = 22, Preset = ''veryfast'', Scale = '''', FPS = 0, Audio = ''aac'',
       AB = ''128k'', HW = ''none'', OutExt = ''.mp4'', SpeedMode = ''ultra_fast'',
       Resolution = ''720p''\<rparr>
   \<and> compiledOpts (emptyForm(''speed'' := ''ultra_fast'', ''resolution'' := ''720p''))
        (Some 5242880) =
      \<lparr>Codec = ''h264'', CRF = 32, Preset = ''ultrafast'', Scale = ''1280:720'', FPS = 0,
       Audio = ''aac'', AB = ''96k'', HW = ''none'', OutExt = ''.mp4'', SpeedMode = ''ultra_fast'',
       Resolution = ''720p''\<rparr>
   \<and> buildFFmpegArgs ''/tmp/in.mp4'' ''/tmp/in_compressed.mp4''
        (compiledOpts (emptyForm(''speed'' := ''ultra_fast'', ''resolution'' := ''720p''))
          (Some 5242880)) =
      [''-y'', ''-hide_banner'', ''-loglevel'', ''error'', ''-i'', ''/tmp/in.mp4'', ''-vf'',
       ''scale=1280:720:flags=fast_bilinear,setsar=1'', ''-c:v'', ''libx264'', ''-crf'', ''32'',
       ''-preset'', ''ultrafast'', ''-pix_fmt'', ''yuv420p'', ''-c:a'', ''aac'', ''-b:a'', ''96k'',
       ''-movflags'', ''+faststart'', ''-threads'', ''0'', ''/tmp/in_compressed.mp4'']"
  by code_simp

subsection \<open>The transcode invoker\<close>

lemma Contains_none: "\<not> Contains ''none'' ''videotoolbox''"
  by simp

text \<open>
  The invoker spawns the process once or twice.  A success of the first run ends
  it; a failure of a run compiled with hardware on is followed by exactly one more
  run, compiled from the same options with the hardware flag \<^verbatim>\<open>none\<close>, whose result
  is final; a failure with a hardware flag that does not contain \<^verbatim>\<open>videotoolbox\<close>
  is final at once.
\<close>

lemma runFFmpeg_at_most_two_spawns:
  "1 \<le> length (fst (runFFmpeg proc inPath outPath opts))
   \<and> length (fst (runFFmpeg proc inPath outPath opts)) \<le> 2"
  by (simp add: runFFmpeg_def Let_def split: option.split)

lemma runFFmpeg_success:
  assumes "proc 0 (buildFFmpegArgs inPath outPath (normalize_opts opts)) = None"
  shows "runFFmpeg proc inPath outPath opts =
           ([buildFFmpegArgs inPath outPath (normalize_opts opts)], None)"
  using assms by (simp add: runFFmpeg_def Let_def)

lemma runFFmpeg_hardware_retry:
  assumes "ToLower (HW (normalize_opts opts)) = ''videotoolbox''"
    and "proc 0 (buildFFmpegArgs inPath outPath (normalize_opts opts)) = Some err"
  shows "runFFmpeg proc inPath outPath opts =
           ([buildFFmpegArgs inPath outPath (normalize_opts opts),
             buildFFmpegArgs inPath outPath ((normalize_opts opts)\<lparr>HW := ''none''\<rparr>)],
            proc 1 (buildFFmpegArgs inPath outPath ((normalize_opts opts)\<lparr>HW := ''none''\<rparr>)))"
  using assms by (simp add: runFFmpeg_def Let_def)

lemma runFFmpeg_no_retry:
  assumes "\<not> Contains (ToLower (HW (normalize_opts opts))) ''videotoolbox''"
    and "proc 0 (buildFFmpegArgs inPath outPath (normalize_opts opts)) = Some err"
  shows "runFFmpeg proc inPath outPath opts =
           ([buildFFmpegArgs inPath outPath (normalize_opts opts)], Some err)"
  using assms by (simp add: runFFmpeg_def Let_def)

lemma runFFmpeg_hardware_off:
  assumes "HW opts = '''' \<or> HW opts = ''none''"
    and "proc 0 (buildFFmpegArgs inPath outPath (normalize_opts opts)) = Some err"
  shows "runFFmpeg proc inPath outPath opts =
           ([buildFFmpegArgs inPath outPath (normalize_opts opts)], Some err)"
proof -
  have "HW (normalize_opts opts) = ''none''"
    using assms(1) by (auto simp add: normalize_fields)
  moreover have "ToLower ''none'' = ''none''"
    by code_simp
  ultimately have "\<not> Contains (ToLower (HW (normalize_opts opts))) ''videotoolbox''"
    by (simp only: Contains_none not_False_eq_True)
  then show ?thesis
    using assms(2) by (rule runFFmpeg_no_retry)
qed

text \<open>
  A request with hardware on whose first run fails and whose second run succeeds:
  the first run uses hardware decoding and the hardware encoder, the retry the
  software encoder, and the request succeeds.
\<close>

lemma hardware_retry_example:
  "compress failsFirst (emptyForm(''hw'' := ''VideoToolbox'')) (Some 52428800)
     ''/tmp/in.mp4'' ''/tmp/in_compressed.mp4'' =
   ([[''-y'', ''-hide_banner'', ''-loglevel'', ''error'', ''-hwaccel'', ''videotoolbox'',
      ''-hwaccel_output_format'', ''videotoolbox'', ''-i'', ''/tmp/in.mp4'', ''-c:v'',
      ''h264_videotoolbox'', ''-b:v'', ''2.5M'', ''-pix_fmt'', ''yuv420p'', ''-c:a'', ''aac'',
      ''-b:a'', ''128k'', ''-movflags'', ''+faststart'', ''-threads'', ''0'',
      ''/tmp/in_compressed.mp4''],
     [''-y'', ''-hide_banner'', ''-loglevel'', ''error'', ''-i'', ''/tmp/in.mp4'', ''-c:v'',
      ''libx264'', ''-crf'', ''28'', ''-preset'', ''veryfast'', ''-pix_fmt'', ''yuv420p'', ''-c:a'',
      ''aac'', ''-b:a'', ''128k'', ''-movflags'', ''+faststart'', ''-threads'', ''0'',
      ''/tmp/in_compressed.mp4'']],
    None)"
  by code_simp

text \<open>
  Claim C3 does not hold of the code on a run with hardware off whose hardware flag
  contains \<^verbatim>\<open>videotoolbox\<close> without being it.  For the value \<^verbatim>\<open>h264_videotoolbox\<close>
  the compiler selects the software encoder and no hardware decoding, so hardware is
  off on the first run; when that run fails, the invoker still retries once, on the
  same arguments.
\<close>

theorem retry_after_software_failure:
  "compress alwaysFails (emptyForm(''hw'' := ''h264_videotoolbox'')) (Some 52428800)
     ''/tmp/in.mp4'' ''/tmp/in_compressed.mp4'' =
   ([[''-y'', ''-hide_banner'', ''-loglevel'', ''error'', ''-i'', ''/tmp/in.mp4'', ''-c:v'',
      ''libx264'', ''-crf'', ''28'', ''-preset'', ''veryfast'', ''-pix_fmt'', ''yuv420p'', ''-c:a'',
      ''aac'', ''-b:a'', ''128k'', ''-movflags'', ''+faststart'', ''-threads'', ''0'',
      ''/tmp/in_compressed.mp4''],
     [''-y'', ''-hide_banner'', ''-loglevel'', ''error'', ''-i'', ''/tmp/in.mp4'', ''-c:v'',
      ''libx264'', ''-crf'', ''28'', ''-preset'', ''veryfast'', ''-pix_fmt'', ''yuv420p'', ''-c:a'',
      ''aac'', ''-b:a'', ''128k'', ''-movflags'', ''+faststart'', ''-threads'', ''0'',
      ''/tmp/in_compressed.mp4'']],
    Some ''exit status 1'')
   \<and> ToLower ''h264_videotoolbox'' \<noteq> ''videotoolbox''
   \<and> length (fst (compress alwaysFails (emptyForm(''hw'' := ''none'')) (Some 52428800)
         ''/tmp/in.mp4'' ''/tmp/in_compressed.mp4'')) = 1
   \<and> length (fst (compress alwaysFails (emptyForm(''hw'' := ''videotoolbox'')) (Some 52428800)
         ''/tmp/in.mp4'' ''/tmp/in_compressed.mp4'')) = 2"
  by code_simp

end
